theory Spec2Isabelle
  imports Main
begin

section \<open>Strings\<close>

text \<open>
  Python's \<^verbatim>\<open>str\<close> is modelled by \<^typ>\<open>string\<close>. A \<^typ>\<open>char\<close> stands for one code
  point in the range 0..255: this is exactly the alphabet of header names and values
  (\<^verbatim>\<open>http.client\<close> decodes the header block as ISO-8859-1), and it restricts page
  bodies to that range. All patterns and keys of \<^verbatim>\<open>scanner.py\<close> are ASCII, and on
  this alphabet a character equals an ASCII letter up to case exactly when it is that
  letter in lower or upper case, so case folding is the ASCII one.
\<close>

definition ascii_lower :: "char \<Rightarrow> char" where
  "ascii_lower c =
     (case map_of (zip ''ABCDEFGHIJKLMNOPQRSTUVWXYZ'' ''abcdefghijklmnopqrstuvwxyz'') c of
        Some l \<Rightarrow> l
      | None \<Rightarrow> c)"

definition lower :: "string \<Rightarrow> string" where
  "lower s = map ascii_lower s"

text \<open>\<^verbatim>\<open>s.startswith(p)\<close>\<close>

fun startswith :: "string \<Rightarrow> string \<Rightarrow> bool" where
  "startswith s [] = True"
| "startswith [] (p # ps) = False"
| "startswith (c # s) (p # ps) = (c = p \<and> startswith s ps)"

text \<open>\<^verbatim>\<open>sub in s\<close> on strings: \<open>sub\<close> occurs in \<open>s\<close> as a contiguous block.\<close>

fun str_in :: "string \<Rightarrow> string \<Rightarrow> bool" where
  "str_in sub [] = (sub = [])"
| "str_in sub (c # s) = (startswith (c # s) sub \<or> str_in sub s)"

text \<open>\<^verbatim>\<open>sep.join(xs)\<close>\<close>

fun join :: "string \<Rightarrow> string list \<Rightarrow> string" where
  "join sep [] = []"
| "join sep [x] = x"
| "join sep (x # y # ys) = x @ sep @ join sep (y # ys)"

text \<open>The two quote characters, which cannot be written inside a string literal.\<close>

abbreviation dquote :: char where "dquote \<equiv> CHR 0x22"
abbreviation squote :: char where "squote \<equiv> CHR 0x27"

section \<open>Regular expressions\<close>

text \<open>
  Every pattern of \<^verbatim>\<open>scanner.py\<close> is an alternation of sequences of literal characters
  (some written with a backslash: \<^verbatim>\<open>\.\<close>, \<^verbatim>\<open>\(\<close>) and character classes. A pattern is
  therefore a list of alternatives, each a list of atoms. \<^verbatim>\<open>re.search\<close> is used
  for its truth value only: it succeeds iff some alternative matches at some position.
  The flag \<open>ic\<close> is \<^verbatim>\<open>re.IGNORECASE\<close>.
\<close>

datatype atom = Lit char | OneOf "char list"

type_synonym regex = "atom list list"

definition lits :: "string \<Rightarrow> atom list" where
  "lits s = map Lit s"

fun atom_ok :: "bool \<Rightarrow> atom \<Rightarrow> char \<Rightarrow> bool" where
  "atom_ok ic (Lit p) c = (if ic then ascii_lower c = ascii_lower p else c = p)"
| "atom_ok ic (OneOf ps) c =
     (if ic then ascii_lower c \<in> set (map ascii_lower ps) else c \<in> set ps)"

fun match_here :: "bool \<Rightarrow> atom list \<Rightarrow> string \<Rightarrow> bool" where
  "match_here ic [] s = True"
| "match_here ic (a # as) [] = False"
| "match_here ic (a # as) (c # s) = (atom_ok ic a c \<and> match_here ic as s)"

fun search_seq :: "bool \<Rightarrow> atom list \<Rightarrow> string \<Rightarrow> bool" where
  "search_seq ic as [] = match_here ic as []"
| "search_seq ic as (c # s) = (match_here ic as (c # s) \<or> search_seq ic as s)"

definition re_search :: "bool \<Rightarrow> regex \<Rightarrow> string \<Rightarrow> bool" where
  "re_search ic alts s = list_ex (\<lambda>as. search_seq ic as s) alts"

section \<open>Dictionaries\<close>

text \<open>
  A Python \<^verbatim>\<open>dict\<close> with string keys is an association list in insertion order with
  distinct keys. Lookup compares keys exactly (case-sensitively).
\<close>

type_synonym 'v dict = "(string \<times> 'v) list"

definition dict_get :: "'v dict \<Rightarrow> string \<Rightarrow> 'v \<Rightarrow> 'v" where
  "dict_get d k dflt = (case map_of d k of Some v \<Rightarrow> v | None \<Rightarrow> dflt)"

definition dict_in :: "string \<Rightarrow> 'v dict \<Rightarrow> bool" where
  "dict_in k d = (map_of d k \<noteq> None)"

definition dict_keys :: "'v dict \<Rightarrow> string list" where
  "dict_keys d = map fst d"

fun dict_set :: "'v dict \<Rightarrow> string \<Rightarrow> 'v \<Rightarrow> 'v dict" where
  "dict_set [] k v = [(k, v)]"
| "dict_set ((k', v') # d) k v =
     (if k' = k then (k', v) # d else (k', v') # dict_set d k v)"

section \<open>Fingerprint engine\<close>

text \<open>\<^verbatim>\<open>detect_web_server\<close>: \<^verbatim>\<open>server.split('/')[0]\<close> is the text before the first slash.\<close>

definition detect_web_server :: "string dict \<Rightarrow> string" where
  "detect_web_server headers =
     (let server = dict_get headers ''Server'' ''Unknown''
      in if server \<noteq> ''Unknown'' then takeWhile (\<lambda>c. c \<noteq> CHR ''/'') server
         else ''Unknown'')"

text \<open>The pattern \<^verbatim>\<open>\.ext["\']\<close>: the extension followed by a double or single quote.\<close>

definition quoted_ext :: "string \<Rightarrow> regex" where
  "quoted_ext ext = [lits ext @ [OneOf [dquote, squote]]]"

definition detect_programming_language :: "string dict \<Rightarrow> string \<Rightarrow> string" where
  "detect_programming_language headers content =
     (let powered_by = dict_get headers ''X-Powered-By'' '''' in
      if str_in ''PHP'' powered_by then ''PHP''
      else if str_in ''ASP.NET'' powered_by then ''ASP.NET''
      else if re_search False (quoted_ext ''.php'') content then ''PHP''
      else if re_search False (quoted_ext ''.aspx'') content then ''ASP.NET''
      else if re_search False (quoted_ext ''.jsp'') content then ''Java''
      else if re_search False (quoted_ext ''.py'') content then ''Python''
      else ''Unknown'')"

text \<open>
  The loop \<^verbatim>\<open>for label, pattern in table.items(): if re.search(...): return label\<close>
  of \<^verbatim>\<open>detect_cms\<close> and \<^verbatim>\<open>detect_analytics\<close>, with the value returned after the loop.
\<close>

fun first_label :: "(string \<times> regex) list \<Rightarrow> string \<Rightarrow> string \<Rightarrow> string" where
  "first_label [] content dflt = dflt"
| "first_label ((label, pattern) # rest) content dflt =
     (if re_search True pattern content then label else first_label rest content dflt)"

definition cms_patterns :: "(string \<times> regex) list" where
  "cms_patterns =
     [(''WordPress'', [lits ''wp-content'', lits ''wp-includes'', lits ''wordpress'']),
      (''Drupal'', [lits ''drupal'', lits ''sites/default'']),
      (''Joomla'', [lits ''joomla'', lits ''option=com_'']),
      (''Magento'', [lits ''magento'', lits ''mage/js'']),
      (''Shopify'', [lits ''shopify'', lits ''cdn.shopify''])]"

definition detect_cms :: "string \<Rightarrow> string" where
  "detect_cms content = first_label cms_patterns content ''Custom/Unknown''"

definition framework_patterns :: "(string \<times> regex) list" where
  "framework_patterns =
     [(''React'', [lits ''react'', lits ''reactjs'']),
      (''Vue.js'', [lits ''vue.js'', lits ''vuejs'']),
      (''Angular'', [lits ''angular'', lits ''ng-'']),
      (''jQuery'', [lits ''jquery''])]"

text \<open>
  The loop of \<^verbatim>\<open>detect_js_frameworks\<close>: \<open>frameworks\<close> is the list built so far, and each
  matching label is appended to it.
\<close>

fun collect_frameworks :: "(string \<times> regex) list \<Rightarrow> string \<Rightarrow> string list \<Rightarrow> string list" where
  "collect_frameworks [] content frameworks = frameworks"
| "collect_frameworks ((framework, pattern) # rest) content frameworks =
     collect_frameworks rest content
       (if re_search True pattern content then frameworks @ [framework] else frameworks)"

definition js_frameworks :: "string \<Rightarrow> string list" where
  "js_frameworks content = collect_frameworks framework_patterns content []"

definition detect_js_frameworks :: "string \<Rightarrow> string" where
  "detect_js_frameworks content =
     (let frameworks = js_frameworks content
      in if frameworks \<noteq> [] then join '', '' frameworks else ''Unknown'')"

definition analytics_patterns :: "(string \<times> regex) list" where
  "analytics_patterns =
     [(''Google Analytics'', [lits ''google-analytics'', lits ''gtag'', lits ''ga('']),
      (''Google Tag Manager'', [lits ''googletagmanager'']),
      (''Facebook Pixel'', [lits ''facebook.net/tr'', lits ''fbq('']),
      (''Hotjar'', [lits ''hotjar''])]"

definition detect_analytics :: "string \<Rightarrow> string" where
  "detect_analytics content = first_label analytics_patterns content ''None detected''"

section \<open>Python values and exceptions\<close>

text \<open>
  The report is built from dictionaries, strings, integers and Booleans, and the
  certificate returned by \<^verbatim>\<open>getpeercert()\<close> is a dictionary whose entries hold strings and
  nested tuples. Both are values of \<open>pyval\<close>; a dictionary keeps its entries in insertion
  order.
\<close>

datatype pyval =
    PNone
  | PBool bool
  | PInt int
  | PStr string
  | PList "pyval list"
  | PTuple "pyval list"
  | PDict "(string \<times> pyval) list"

text \<open>An exception carries the text that \<^verbatim>\<open>str(e)\<close> returns.\<close>

datatype exn =
    ValueError string
  | OverflowError string
  | AttributeError string
  | IndexError string
  | KeyError string
  | TypeError string
  | OSError string

fun str_exn :: "exn \<Rightarrow> string" where
  "str_exn (ValueError m) = m"
| "str_exn (OverflowError m) = m"
| "str_exn (AttributeError m) = m"
| "str_exn (IndexError m) = m"
| "str_exn (KeyError m) = m"
| "str_exn (TypeError m) = m"
| "str_exn (OSError m) = m"

fun type_name :: "pyval \<Rightarrow> string" where
  "type_name PNone = ''NoneType''"
| "type_name (PBool b) = ''bool''"
| "type_name (PInt i) = ''int''"
| "type_name (PStr s) = ''str''"
| "type_name (PList xs) = ''list''"
| "type_name (PTuple xs) = ''tuple''"
| "type_name (PDict d) = ''dict''"

text \<open>\<^verbatim>\<open>v.get(k, d)\<close>: only a dictionary has the method.\<close>

fun py_get :: "pyval \<Rightarrow> string \<Rightarrow> pyval \<Rightarrow> exn + pyval" where
  "py_get (PDict d) k dflt = Inr (dict_get d k dflt)"
| "py_get v k dflt =
     Inl (AttributeError
       ([squote] @ type_name v @ [squote] @ '' object has no attribute '' @ [squote] @ ''get'' @ [squote]))"

text \<open>\<^verbatim>\<open>v[0]\<close>. The dictionaries here have string keys, so the key \<open>0\<close> is never present.\<close>

fun py_index0 :: "pyval \<Rightarrow> exn + pyval" where
  "py_index0 (PList []) = Inl (IndexError ''list index out of range'')"
| "py_index0 (PList (x # xs)) = Inr x"
| "py_index0 (PTuple []) = Inl (IndexError ''tuple index out of range'')"
| "py_index0 (PTuple (x # xs)) = Inr x"
| "py_index0 (PStr []) = Inl (IndexError ''string index out of range'')"
| "py_index0 (PStr (c # s)) = Inr (PStr [c])"
| "py_index0 (PDict d) = Inl (KeyError ''0'')"
| "py_index0 v = Inl (TypeError ([squote] @ type_name v @ [squote] @ '' object is not subscriptable''))"

section \<open>Response headers\<close>

text \<open>
  \<^verbatim>\<open>response.headers\<close> is an \<^verbatim>\<open>http.client.HTTPMessage\<close>: the header lines in the order
  received, names in the letter case the server sent. Its \<^verbatim>\<open>get\<close> and \<^verbatim>\<open>in\<close> compare names
  case-insensitively and \<^verbatim>\<open>get\<close> returns the first match. \<^verbatim>\<open>dict(response.headers)\<close> builds
  an ordinary dictionary from \<^verbatim>\<open>keys()\<close> and \<^verbatim>\<open>msg[k]\<close>: its keys are the names as sent, and
  lookup in it is case-sensitive.
\<close>

type_synonym message = "(string \<times> string) list"

definition msg_get :: "message \<Rightarrow> string \<Rightarrow> string \<Rightarrow> string" where
  "msg_get m name dflt =
     (case find (\<lambda>(k, v). lower k = lower name) m of
        Some (k, v) \<Rightarrow> v
      | None \<Rightarrow> dflt)"

definition msg_contains :: "string \<Rightarrow> message \<Rightarrow> bool" where
  "msg_contains name m = list_ex (\<lambda>(k, v). lower k = lower name) m"

definition dict_of_msg :: "message \<Rightarrow> string dict" where
  "dict_of_msg m = foldl (\<lambda>d k. dict_set d k (msg_get m k '''')) [] (map fst m)"

section \<open>Numbers\<close>

text \<open>
  \<^verbatim>\<open>str.isdigit\<close> on the 8-bit alphabet: the ten ASCII digits and the superscript digits
  U+00B2, U+00B3 and U+00B9. \<^verbatim>\<open>int\<close> accepts only the ASCII digits among them; \<open>py_int\<close>
  models \<^verbatim>\<open>int(s)\<close> for strings that passed \<^verbatim>\<open>isdigit\<close>, the only ones it is called on.
\<close>

definition is_ascii_digit :: "char \<Rightarrow> bool" where
  "is_ascii_digit c = (c \<in> set ''0123456789'')"

definition is_digit_char :: "char \<Rightarrow> bool" where
  "is_digit_char c = (is_ascii_digit c \<or> c \<in> set [CHR 0xB2, CHR 0xB3, CHR 0xB9])"

definition str_isdigit :: "string \<Rightarrow> bool" where
  "str_isdigit s = (s \<noteq> [] \<and> list_all is_digit_char s)"

definition digit_value :: "char \<Rightarrow> nat" where
  "digit_value c = (case map_of (zip ''0123456789'' [0, 1, 2, 3, 4, 5, 6, 7, 8, 9]) c of
                      Some d \<Rightarrow> d | None \<Rightarrow> 0)"

definition py_int :: "string \<Rightarrow> exn + nat" where
  "py_int s =
     (if s \<noteq> [] \<and> list_all is_ascii_digit s
      then Inr (foldl (\<lambda>n c. 10 * n + digit_value c) 0 s)
      else Inl (ValueError (''invalid literal for int() with base 10: '' @ [squote] @ s @ [squote])))"

definition digit_char :: "nat \<Rightarrow> char" where
  "digit_char d = ''0123456789'' ! (d mod 10)"

fun str_nat :: "nat \<Rightarrow> string" where
  "str_nat n = (if n < 10 then [digit_char n] else str_nat (n div 10) @ [digit_char (n mod 10)])"

text \<open>The integer nearest to \<open>a / b\<close>, a tie going to the even neighbour.\<close>

definition round_half_even :: "nat \<Rightarrow> nat \<Rightarrow> nat" where
  "round_half_even a b =
     (let q = a div b; r = a mod b
      in if 2 * r < b then q
         else if b < 2 * r then q + 1
         else if even q then q else q + 1)"

fun bit_length :: "nat \<Rightarrow> nat" where
  "bit_length n = (if n = 0 then 0 else Suc (bit_length (n div 2)))"

text \<open>
  \<^verbatim>\<open>n / 1024\<close> on an \<^verbatim>\<open>int\<close> is the double nearest to the quotient (ties to even), or
  \<^verbatim>\<open>OverflowError\<close> when that is not finite. A double that is a multiple of \<open>1/1024\<close> is
  represented by its numerator: the result \<open>x\<close> stands for \<open>x / 1024\<close>. Below \<open>2 ^ 53\<close> the
  quotient is exact.
\<close>

definition truediv_1024 :: "nat \<Rightarrow> exn + nat" where
  "truediv_1024 n =
     (let k = bit_length n - 53;
          x = round_half_even n (2 ^ k) * 2 ^ k
      in if 1034 < bit_length x
         then Inl (OverflowError ''integer division result too large for a float'')
         else Inr x)"

text \<open>\<^verbatim>\<open>f"{x:.2f}"\<close> for the double \<open>x / 1024\<close>: correctly rounded to hundredths.\<close>

definition format_2f :: "nat \<Rightarrow> string" where
  "format_2f x =
     (let h = round_half_even (100 * x) 1024
      in str_nat (h div 100) @ ''.'' @ [digit_char (h mod 100 div 10), digit_char (h mod 10)])"

text \<open>
  The expression for \<^verbatim>\<open>page_size\<close> in \<^verbatim>\<open>get_performance_info\<close>. It stands outside every
  \<^verbatim>\<open>try\<close>, so an exception of \<^verbatim>\<open>int\<close> or of the division leaves the method.
\<close>

definition page_size :: "string \<Rightarrow> exn + string" where
  "page_size content_length =
     (if content_length \<noteq> ''Unknown'' \<and> str_isdigit content_length
      then (case py_int content_length of
              Inl e \<Rightarrow> Inl e
            | Inr n \<Rightarrow> (case truediv_1024 n of
                          Inl e \<Rightarrow> Inl e
                        | Inr x \<Rightarrow> Inr (format_2f x @ '' KB'')))
      else Inr ''Unknown'')"

section \<open>The environment\<close>

text \<open>
  The scanner talks to the outside through library calls: \<^verbatim>\<open>urllib.parse.urlparse\<close>,
  \<^verbatim>\<open>urllib.request.urlopen\<close>, \<^verbatim>\<open>socket.gethostbyname\<close>, the \<^verbatim>\<open>nslookup\<close> process, the TLS
  connection with \<^verbatim>\<open>getpeercert\<close>, and the clock. A \<open>world\<close> gives the outcome of each
  call, an exception being the left summand. Each network call is recorded as an event,
  and an outcome may depend on the events so far, so that two requests for the same URL
  may be answered differently.
\<close>

record parsed_url =
  p_scheme :: string
  p_netloc :: string
  p_port :: "exn + int option"

text \<open>
  What the code reads of a response: \<^verbatim>\<open>getcode()\<close>, \<^verbatim>\<open>headers\<close>, and the decoded text of
  \<^verbatim>\<open>read()\<close>, which may raise. \<open>r_elapsed\<close> is the text of \<^verbatim>\<open>f"{response_time:.2f}"\<close> for
  the time the request took, a floating-point measurement that is left to the environment.
\<close>

record response =
  r_status :: int
  r_headers :: message
  r_body :: "exn + string"
  r_elapsed :: string

datatype event =
    Urlopen string
  | Gethostbyname string
  | Nslookup string
  | TlsConnect string

text \<open>\<open>w_now\<close> is the text of \<^verbatim>\<open>datetime.now().isoformat()\<close>.\<close>

record world =
  w_urlparse :: "string \<Rightarrow> exn + parsed_url"
  w_urlopen :: "event list \<Rightarrow> string \<Rightarrow> exn + response"
  w_gethostbyname :: "event list \<Rightarrow> string \<Rightarrow> exn + string"
  w_nslookup :: "event list \<Rightarrow> string \<Rightarrow> exn + string"
  w_getpeercert :: "event list \<Rightarrow> string \<Rightarrow> exn + pyval"
  w_now :: string

section \<open>The scanner\<close>

text \<open>
  Every method takes the events so far and returns its value with the events extended by
  its own calls. A method that can raise returns a sum.
\<close>

record scanner =
  s_url :: string
  s_domain :: string

definition WebsiteScanner :: "world \<Rightarrow> string \<Rightarrow> exn + scanner" where
  "WebsiteScanner w u =
     (case w_urlparse w u of
        Inl e \<Rightarrow> Inl e
      | Inr parsed \<Rightarrow> Inr \<lparr>s_url = u, s_domain = p_netloc parsed\<rparr>)"

text \<open>
  \<^verbatim>\<open>get_basic_info\<close>. The \<^verbatim>\<open>port\<close> property of the parse result raises \<^verbatim>\<open>ValueError\<close> on a
  port that is not a number in range; it is read after the request and outside the
  \<^verbatim>\<open>try\<close>. \<^verbatim>\<open>port or default\<close> takes the default for no port and for port 0.
\<close>

definition get_basic_info :: "world \<Rightarrow> scanner \<Rightarrow> event list \<Rightarrow> (exn + pyval) \<times> event list" where
  "get_basic_info w self t =
     (case w_urlparse w (s_url self) of
        Inl e \<Rightarrow> (Inl e, t)
      | Inr parsed_url \<Rightarrow>
          let status_code = (case w_urlopen w t (s_url self) of
                               Inr response \<Rightarrow> PInt (r_status response)
                             | Inl e \<Rightarrow> PStr ''Unknown'');
              t1 = t @ [Urlopen (s_url self)];
              dflt = (if p_scheme parsed_url = ''https'' then 443 else 80)
          in (case p_port parsed_url of
                Inl e \<Rightarrow> (Inl e, t1)
              | Inr port \<Rightarrow>
                  (Inr (PDict
                     [(''url'', PStr (s_url self)),
                      (''domain'', PStr (s_domain self)),
                      (''status_code'', status_code),
                      (''protocol'', PStr (p_scheme parsed_url)),
                      (''port'', PInt (case port of
                                         None \<Rightarrow> dflt
                                       | Some n \<Rightarrow> if n = 0 then dflt else n))]),
                   t1)))"

definition get_location_info :: "string \<Rightarrow> string dict" where
  "get_location_info ip =
     [(''country'', ''Unknown''), (''city'', ''Unknown''), (''isp'', ''Unknown'')]"

definition get_server_info :: "world \<Rightarrow> scanner \<Rightarrow> event list \<Rightarrow> pyval \<times> event list" where
  "get_server_info w self t =
     (let ip_address = (case w_gethostbyname w t (s_domain self) of
                          Inr ip \<Rightarrow> ip
                        | Inl e \<Rightarrow> ''Unknown'');
          t1 = t @ [Gethostbyname (s_domain self)];
          server = (case w_urlopen w t1 (s_url self) of
                      Inr response \<Rightarrow> msg_get (r_headers response) ''Server'' ''Unknown''
                    | Inl e \<Rightarrow> ''Unknown'');
          t2 = t1 @ [Urlopen (s_url self)];
          location_info = get_location_info ip_address
      in (PDict
            [(''ip_address'', PStr ip_address),
             (''server'', PStr server),
             (''location'', PStr (dict_get location_info ''country'' ''Unknown'')),
             (''city'', PStr (dict_get location_info ''city'' ''Unknown'')),
             (''isp'', PStr (dict_get location_info ''isp'' ''Unknown''))],
          t2))"

text \<open>
  \<^verbatim>\<open>get_name_servers\<close> reads the output of \<^verbatim>\<open>nslookup\<close>. \<^verbatim>\<open>split('\n')\<close> cuts at line feeds,
  \<^verbatim>\<open>split()\<close> at runs of white space, \<^verbatim>\<open>rstrip('.')\<close> drops trailing dots. \<^verbatim>\<open>[-1]\<close> on an
  empty list raises \<^verbatim>\<open>IndexError\<close>, caught like every exception of the method.
\<close>

fun split_on :: "char \<Rightarrow> string \<Rightarrow> string list" where
  "split_on d [] = [[]]"
| "split_on d (c # s) =
     (if c = d then [] # split_on d s
      else (case split_on d s of
              [] \<Rightarrow> [[c]]
            | x # xs \<Rightarrow> (c # x) # xs))"

definition is_space :: "char \<Rightarrow> bool" where
  "is_space c =
     (c \<in> set [CHR 0x09, CHR 0x0A, CHR 0x0B, CHR 0x0C, CHR 0x0D, CHR 0x1C, CHR 0x1D,
                CHR 0x1E, CHR 0x1F, CHR 0x20, CHR 0x85, CHR 0xA0])"

fun split_ws :: "string \<Rightarrow> string list" where
  "split_ws [] = []"
| "split_ws (c # s) =
     (if is_space c then split_ws s
      else (case s of
              [] \<Rightarrow> [[c]]
            | c' # s' \<Rightarrow>
                if is_space c' then [c] # split_ws s
                else (case split_ws s of
                        [] \<Rightarrow> [[c]]
                      | x # xs \<Rightarrow> (c # x) # xs)))"

definition rstrip_dots :: "string \<Rightarrow> string" where
  "rstrip_dots s = rev (dropWhile (\<lambda>c. c = CHR ''.'') (rev s))"

fun collect_nameservers :: "string list \<Rightarrow> string list \<Rightarrow> exn + string list" where
  "collect_nameservers [] nameservers = Inr nameservers"
| "collect_nameservers (line # rest) nameservers =
     (if str_in ''nameserver'' (lower line)
      then (case split_ws line of
              [] \<Rightarrow> Inl (IndexError ''list index out of range'')
            | x # xs \<Rightarrow>
                collect_nameservers rest (nameservers @ [rstrip_dots (last (x # xs))]))
      else collect_nameservers rest nameservers)"

definition get_name_servers :: "world \<Rightarrow> scanner \<Rightarrow> event list \<Rightarrow> string \<times> event list" where
  "get_name_servers w self t =
     ((case w_nslookup w t (s_domain self) of
         Inl e \<Rightarrow> ''Unknown''
       | Inr stdout \<Rightarrow>
           (case collect_nameservers (split_on (CHR 0x0A) stdout) [] of
              Inl e \<Rightarrow> ''Unknown''
            | Inr nameservers \<Rightarrow>
                if nameservers \<noteq> [] then join '', '' nameservers else ''Unknown'')),
      t @ [Nslookup (s_domain self)])"

definition get_domain_info :: "world \<Rightarrow> scanner \<Rightarrow> event list \<Rightarrow> pyval \<times> event list" where
  "get_domain_info w self t =
     (let (name_servers, t1) = get_name_servers w self t
      in (PDict
            [(''registrar'', PStr ''Unknown''),
             (''creation_date'', PStr ''Unknown''),
             (''expiry_date'', PStr ''Unknown''),
             (''name_servers'', PStr name_servers),
             (''dnssec'', PStr ''Unknown'')],
          t1))"

text \<open>
  \<^verbatim>\<open>get_ssl_info\<close>. The expression \<^verbatim>\<open>cert.get(field, [{}])[0].get('commonName', 'Unknown')\<close>
  is \<open>common_name\<close>. The entries of the dictionary literal are evaluated in order, and the
  first exception ends the \<^verbatim>\<open>try\<close> block.
\<close>

definition common_name :: "pyval \<Rightarrow> string \<Rightarrow> exn + pyval" where
  "common_name cert field =
     (case py_get cert field (PList [PDict []]) of
        Inl e \<Rightarrow> Inl e
      | Inr names \<Rightarrow>
          (case py_index0 names of
             Inl e \<Rightarrow> Inl e
           | Inr first \<Rightarrow> py_get first ''commonName'' (PStr ''Unknown'')))"

definition cert_info :: "pyval \<Rightarrow> exn + pyval" where
  "cert_info cert =
     (case common_name cert ''issuer'' of
        Inl e \<Rightarrow> Inl e
      | Inr issuer \<Rightarrow>
     (case py_get cert ''notBefore'' (PStr ''Unknown'') of
        Inl e \<Rightarrow> Inl e
      | Inr valid_from \<Rightarrow>
     (case py_get cert ''notAfter'' (PStr ''Unknown'') of
        Inl e \<Rightarrow> Inl e
      | Inr valid_to \<Rightarrow>
     (case common_name cert ''subject'' of
        Inl e \<Rightarrow> Inl e
      | Inr subject \<Rightarrow>
          Inr (PDict
            [(''enabled'', PBool True),
             (''issuer'', issuer),
             (''valid_from'', valid_from),
             (''valid_to'', valid_to),
             (''subject'', subject)])))))"

definition ssl_error :: "exn \<Rightarrow> pyval" where
  "ssl_error e =
     PDict [(''enabled'', PBool False), (''message'', PStr (''SSL error: '' @ str_exn e))]"

definition get_ssl_info :: "world \<Rightarrow> scanner \<Rightarrow> event list \<Rightarrow> pyval \<times> event list" where
  "get_ssl_info w self t =
     (if \<not> startswith (s_url self) ''https''
      then (PDict [(''enabled'', PBool False), (''message'', PStr ''SSL not enabled'')], t)
      else ((case w_getpeercert w t (s_domain self) of
               Inl e \<Rightarrow> ssl_error e
             | Inr cert \<Rightarrow>
                 (case cert_info cert of
                    Inl e \<Rightarrow> ssl_error e
                  | Inr info \<Rightarrow> info)),
            t @ [TlsConnect (s_domain self)]))"

definition security_header_names :: "string list" where
  "security_header_names =
     [''Strict-Transport-Security'',
      ''Content-Security-Policy'',
      ''X-Frame-Options'',
      ''X-Content-Type-Options'',
      ''X-XSS-Protection'',
      ''Referrer-Policy'']"

text \<open>
  The loop of \<^verbatim>\<open>get_security_headers\<close> over the allow-list. \<^verbatim>\<open>headers[header_name]\<close> is read
  only after \<^verbatim>\<open>header_name in headers\<close>, so the default of \<open>dict_get\<close> is never used.
\<close>

fun select_headers :: "string list \<Rightarrow> string dict \<Rightarrow> string dict \<Rightarrow> string dict" where
  "select_headers [] headers security_headers = security_headers"
| "select_headers (header_name # rest) headers security_headers =
     select_headers rest headers
       (if dict_in header_name headers
        then dict_set security_headers header_name (dict_get headers header_name '''')
        else security_headers)"

definition get_security_headers :: "world \<Rightarrow> scanner \<Rightarrow> event list \<Rightarrow> string dict \<times> event list" where
  "get_security_headers w self t =
     ((case w_urlopen w t (s_url self) of
         Inr response \<Rightarrow>
           select_headers security_header_names (dict_of_msg (r_headers response)) []
       | Inl e \<Rightarrow> []),
      t @ [Urlopen (s_url self)])"

definition str_dict :: "string dict \<Rightarrow> pyval" where
  "str_dict d = PDict (map (\<lambda>(k, v). (k, PStr v)) d)"

definition get_security_info :: "world \<Rightarrow> scanner \<Rightarrow> event list \<Rightarrow> pyval \<times> event list" where
  "get_security_info w self t =
     (let (ssl_info, t1) = get_ssl_info w self t;
          (security_headers, t2) = get_security_headers w self t1
      in (PDict
            [(''ssl_certificate'', ssl_info),
             (''security_headers'', str_dict security_headers),
             (''hsts_enabled'', PBool (dict_in ''Strict-Transport-Security'' security_headers)),
             (''content_security_policy'',
                PBool (dict_in ''Content-Security-Policy'' security_headers))],
          t2))"

definition check_compression :: "world \<Rightarrow> scanner \<Rightarrow> event list \<Rightarrow> string \<times> event list" where
  "check_compression w self t =
     ((case w_urlopen w t (s_url self) of
         Inr response \<Rightarrow>
           if msg_contains ''Content-Encoding'' (r_headers response)
           then ''Enabled'' else ''Disabled''
       | Inl e \<Rightarrow> ''Unknown''),
      t @ [Urlopen (s_url self)])"

definition cache_headers :: "string list" where
  "cache_headers = [''Cache-Control'', ''Expires'', ''ETag'', ''Last-Modified'']"

definition check_caching :: "world \<Rightarrow> scanner \<Rightarrow> event list \<Rightarrow> string \<times> event list" where
  "check_caching w self t =
     ((case w_urlopen w t (s_url self) of
         Inr response \<Rightarrow>
           if list_ex (\<lambda>header. msg_contains header (r_headers response)) cache_headers
           then ''Enabled'' else ''Disabled''
       | Inl e \<Rightarrow> ''Unknown''),
      t @ [Urlopen (s_url self)])"

text \<open>
  \<^verbatim>\<open>get_performance_info\<close>. The entries of the returned dictionary are evaluated in order:
  the compression and caching checks run before the page size is computed.
\<close>

definition get_performance_info ::
  "world \<Rightarrow> scanner \<Rightarrow> event list \<Rightarrow> (exn + pyval) \<times> event list" where
  "get_performance_info w self t =
     (let (response_time, content_length) =
            (case w_urlopen w t (s_url self) of
               Inr response \<Rightarrow>
                 (r_elapsed response @ ''ms'',
                  msg_get (r_headers response) ''Content-Length'' ''Unknown'')
             | Inl e \<Rightarrow> (''Unknown'', ''Unknown''));
          t1 = t @ [Urlopen (s_url self)];
          (compression, t2) = check_compression w self t1;
          (caching, t3) = check_caching w self t2
      in (case page_size content_length of
            Inl e \<Rightarrow> (Inl e, t3)
          | Inr kb \<Rightarrow>
              (Inr (PDict
                 [(''response_time'', PStr response_time),
                  (''compression'', PStr compression),
                  (''caching'', PStr caching),
                  (''page_size'', PStr kb)]),
               t3)))"

definition get_technology_info :: "world \<Rightarrow> scanner \<Rightarrow> event list \<Rightarrow> pyval \<times> event list" where
  "get_technology_info w self t =
     (let (content, headers) =
            (case w_urlopen w t (s_url self) of
               Inr response \<Rightarrow>
                 (case r_body response of
                    Inr text \<Rightarrow> (text, dict_of_msg (r_headers response))
                  | Inl e \<Rightarrow> ('''', []))
             | Inl e \<Rightarrow> ('''', []))
      in (PDict
            [(''web_server'', PStr (detect_web_server headers)),
             (''programming_language'', PStr (detect_programming_language headers content)),
             (''cms'', PStr (detect_cms content)),
             (''javascript_frameworks'', PStr (detect_js_frameworks content)),
             (''analytics'', PStr (detect_analytics content))],
          t @ [Urlopen (s_url self)]))"

definition scan_failed :: "exn \<Rightarrow> pyval" where
  "scan_failed e = PDict [(''success'', PBool False), (''error'', PStr (str_exn e))]"

definition scan :: "world \<Rightarrow> scanner \<Rightarrow> event list \<Rightarrow> pyval \<times> event list" where
  "scan w self t =
     (case get_basic_info w self t of
        (Inl e, t1) \<Rightarrow> (scan_failed e, t1)
      | (Inr basic_info, t1) \<Rightarrow>
          let (server_info, t2) = get_server_info w self t1;
              (domain_info, t3) = get_domain_info w self t2;
              (security_info, t4) = get_security_info w self t3
          in (case get_performance_info w self t4 of
                (Inl e, t5) \<Rightarrow> (scan_failed e, t5)
              | (Inr performance_info, t5) \<Rightarrow>
                  let (technology_info, t6) = get_technology_info w self t5
                  in (PDict
                        [(''success'', PBool True),
                         (''data'', PDict
                            [(''basic_info'', basic_info),
                             (''server_info'', server_info),
                             (''domain_info'', domain_info),
                             (''security_info'', security_info),
                             (''performance_info'', performance_info),
                             (''technology_info'', technology_info)]),
                         (''scan_time'', PStr (w_now w))],
                      t6)))"

text \<open>
  \<^verbatim>\<open>main\<close> prints the usage line and exits with status 1 unless there is exactly one
  argument; an exception of the constructor ends the process with a traceback and status 1;
  otherwise the result of \<^verbatim>\<open>scan\<close> is printed by \<^verbatim>\<open>json.dumps\<close> and the status is 0.
\<close>

datatype printed = Usage | Traceback exn | Json pyval

definition main :: "world \<Rightarrow> string list \<Rightarrow> printed \<times> int \<times> event list" where
  "main w argv =
     (if length argv \<noteq> 2 then (Usage, 1, [])
      else (case WebsiteScanner w (argv ! 1) of
              Inl e \<Rightarrow> (Traceback e, 1, [])
            | Inr scanner \<Rightarrow>
                let (result, t) = scan w scanner [] in (Json result, 0, t)))"

section \<open>Reading reports and event lists\<close>

text \<open>\<^verbatim>\<open>v[k]\<close> and \<^verbatim>\<open>list(v.keys())\<close> on a report, and the entry reached by a path of keys.\<close>

fun py_item :: "pyval \<Rightarrow> string \<Rightarrow> pyval" where
  "py_item (PDict d) k = dict_get d k PNone"
| "py_item v k = PNone"

fun py_keys :: "pyval \<Rightarrow> string list" where
  "py_keys (PDict d) = dict_keys d"
| "py_keys v = []"

fun py_path :: "pyval \<Rightarrow> string list \<Rightarrow> pyval" where
  "py_path v [] = v"
| "py_path v (k # ks) = py_path (py_item v k) ks"


definition categories :: "string list" where
  "categories =
     [''basic_info'', ''server_info'', ''domain_info'', ''security_info'',
      ''performance_info'', ''technology_info'']"

text \<open>
  The world in which one call fails: the call \<open>ev\<close> made after the events \<open>at\<close> raises \<open>e\<close>,
  every other call is answered as before.
\<close>

fun fail_call :: "world \<Rightarrow> event list \<Rightarrow> event \<Rightarrow> exn \<Rightarrow> world" where
  "fail_call w at (Urlopen u) e =
     w\<lparr>w_urlopen := \<lambda>t x. if t = at \<and> x = u then Inl e else w_urlopen w t x\<rparr>"
| "fail_call w at (Gethostbyname h) e =
     w\<lparr>w_gethostbyname := \<lambda>t x. if t = at \<and> x = h then Inl e else w_gethostbyname w t x\<rparr>"
| "fail_call w at (Nslookup h) e =
     w\<lparr>w_nslookup := \<lambda>t x. if t = at \<and> x = h then Inl e else w_nslookup w t x\<rparr>"
| "fail_call w at (TlsConnect h) e =
     w\<lparr>w_getpeercert := \<lambda>t x. if t = at \<and> x = h then Inl e else w_getpeercert w t x\<rparr>"

section \<open>Example worlds\<close>

text \<open>
  The answers of \<^verbatim>\<open>urlparse\<close> on the URLs of the examples: the scheme is the text before
  \<^verbatim>\<open>://\<close>, the network location is \<^verbatim>\<open>example.com\<close>, and there is no port.
\<close>

definition example_urlparse :: "string \<Rightarrow> exn + parsed_url" where
  "example_urlparse u =
     Inr \<lparr>p_scheme =
            (if u = ''https://example.com'' then ''https''
             else if u = ''httpsx://example.com'' then ''httpsx''
             else ''http''),
          p_netloc = ''example.com'',
          p_port = Inr None\<rparr>"

definition http_scanner :: scanner where
  "http_scanner = \<lparr>s_url = ''http://example.com'', s_domain = ''example.com''\<rparr>"

definition https_scanner :: scanner where
  "https_scanner = \<lparr>s_url = ''https://example.com'', s_domain = ''example.com''\<rparr>"

definition httpsx_scanner :: scanner where
  "httpsx_scanner = \<lparr>s_url = ''httpsx://example.com'', s_domain = ''example.com''\<rparr>"

text \<open>An unreachable host: every network call raises.\<close>

definition world_down :: world where
  "world_down =
     \<lparr>w_urlparse = example_urlparse,
      w_urlopen = (\<lambda>t u. Inl (OSError ''<urlopen error [Errno 111] Connection refused>'')),
      w_gethostbyname = (\<lambda>t h. Inl (OSError ''[Errno -2] Name or service not known'')),
      w_nslookup = (\<lambda>t h. Inl (OSError ''[Errno 2] No such file or directory'')),
      w_getpeercert = (\<lambda>t h. Inl (OSError ''[Errno 111] Connection refused'')),
      w_now = ''2024-01-01T00:00:00''\<rparr>"

text \<open>
  A host that answers every request with the headers \<open>hs\<close> and presents a certificate in the
  format of \<^verbatim>\<open>getpeercert()\<close>: issuer and subject are tuples of relative distinguished names,
  each a tuple of name-value pairs.
\<close>

definition example_cert :: pyval where
  "example_cert =
     PDict
       [(''subject'', PTuple [PTuple [PTuple [PStr ''commonName'', PStr ''example.com'']]]),
        (''issuer'', PTuple [PTuple [PTuple [PStr ''countryName'', PStr ''US'']],
                             PTuple [PTuple [PStr ''commonName'', PStr ''Example CA'']]]),
        (''notBefore'', PStr ''Jan  1 00:00:00 2024 GMT''),
        (''notAfter'', PStr ''Jan  1 00:00:00 2025 GMT'')]"

definition world_up :: "message \<Rightarrow> pyval \<Rightarrow> world" where
  "world_up hs cert =
     \<lparr>w_urlparse = example_urlparse,
      w_urlopen = (\<lambda>t u. Inr \<lparr>r_status = 200, r_headers = hs,
                               r_body = Inr ''<link href=/wp-content/a.css>'',
                               r_elapsed = ''12.34''\<rparr>),
      w_gethostbyname = (\<lambda>t h. Inr ''93.184.216.34''),
      w_nslookup = (\<lambda>t h. Inr (''example.com'' @ [CHR 0x09] @ ''nameserver = a.iana-servers.net.''
                                   @ [CHR 0x0A])),
      w_getpeercert = (\<lambda>t h. Inr cert),
      w_now = ''2024-01-01T00:00:00''\<rparr>"

definition usual_headers :: message where
  "usual_headers =
     [(''Server'', ''nginx/1.18''),
      (''Strict-Transport-Security'', ''max-age=31536000'')]"

definition lowercase_headers :: message where
  "lowercase_headers =
     [(''server'', ''nginx/1.18''),
      (''content-encoding'', ''gzip''),
      (''strict-transport-security'', ''max-age=31536000'')]"

section \<open>The events of a scan\<close>

text \<open>
  The TLS connection that \<^verbatim>\<open>get_ssl_info\<close> opens, if any, and the events of the five methods
  that run after \<^verbatim>\<open>get_basic_info\<close> up to the start of each later one.
\<close>

definition tls_events :: "scanner \<Rightarrow> event list" where
  "tls_events self =
     (if startswith (s_url self) ''https'' then [TlsConnect (s_domain self)] else [])"

definition before_server :: "scanner \<Rightarrow> event list" where
  "before_server self = [Urlopen (s_url self)]"

definition before_domain :: "scanner \<Rightarrow> event list" where
  "before_domain self =
     before_server self @ [Gethostbyname (s_domain self), Urlopen (s_url self)]"

definition before_security :: "scanner \<Rightarrow> event list" where
  "before_security self = before_domain self @ [Nslookup (s_domain self)]"

definition before_performance :: "scanner \<Rightarrow> event list" where
  "before_performance self = before_security self @ tls_events self @ [Urlopen (s_url self)]"

definition before_technology :: "scanner \<Rightarrow> event list" where
  "before_technology self =
     before_performance self @ [Urlopen (s_url self), Urlopen (s_url self), Urlopen (s_url self)]"

definition scan_events :: "scanner \<Rightarrow> event list" where
  "scan_events self = before_technology self @ [Urlopen (s_url self)]"

section \<open>The format of certificates\<close>



section \<open>An unreachable host\<close>

text \<open>Every network call raises, whatever its argument and whatever happened before.\<close>

definition all_calls_fail :: "world \<Rightarrow> bool" where
  "all_calls_fail w \<longleftrightarrow>
     (\<forall>t x. isl (w_urlopen w t x)) \<and> (\<forall>t x. isl (w_gethostbyname w t x))
     \<and> (\<forall>t x. isl (w_nslookup w t x)) \<and> (\<forall>t x. isl (w_getpeercert w t x))"

section \<open>Properties of strings and patterns\<close>

lemma startswith_iff: "startswith s p \<longleftrightarrow> (\<exists>v. s = p @ v)"
  by (induction s p rule: startswith.induct) auto

lemma str_in_iff: "str_in sub s \<longleftrightarrow> (\<exists>u v. s = u @ sub @ v)"
proof (induction s)
  case Nil
  show ?case by auto
next
  case (Cons c s)
  show ?case
  proof
    assume "str_in sub (c # s)"
    then consider "startswith (c # s) sub" | "str_in sub s" by auto
    then show "\<exists>u v. c # s = u @ sub @ v"
    proof cases
      case 1
      then obtain v where "c # s = sub @ v" by (auto simp: startswith_iff)
      then have "c # s = [] @ sub @ v" by simp
      then show ?thesis by blast
    next
      case 2
      then obtain u v where "s = u @ sub @ v" using Cons.IH by blast
      then have "c # s = (c # u) @ sub @ v" by simp
      then show ?thesis by blast
    qed
  next
    assume "\<exists>u v. c # s = u @ sub @ v"
    then obtain u v where uv: "c # s = u @ sub @ v" by blast
    show "str_in sub (c # s)"
    proof (cases u)
      case Nil
      with uv have "startswith (c # s) sub" by (auto simp: startswith_iff)
      then show ?thesis by simp
    next
      case (Cons a u')
      with uv have "s = u' @ sub @ v" by simp
      then have "str_in sub s" using Cons.IH by blast
      then show ?thesis by simp
    qed
  qed
qed

lemma search_seq_iff: "search_seq ic as s \<longleftrightarrow> (\<exists>u v. s = u @ v \<and> match_here ic as v)"
proof (induction s)
  case Nil
  show ?case by auto
next
  case (Cons c s)
  show ?case
  proof
    assume "search_seq ic as (c # s)"
    then consider "match_here ic as (c # s)" | "search_seq ic as s" by auto
    then show "\<exists>u v. c # s = u @ v \<and> match_here ic as v"
    proof cases
      case 1
      then have "c # s = [] @ (c # s) \<and> match_here ic as (c # s)" by simp
      then show ?thesis by blast
    next
      case 2
      then obtain u v where "s = u @ v" "match_here ic as v" using Cons.IH by blast
      then have "c # s = (c # u) @ v \<and> match_here ic as v" by simp
      then show ?thesis by blast
    qed
  next
    assume "\<exists>u v. c # s = u @ v \<and> match_here ic as v"
    then obtain u v where uv: "c # s = u @ v" "match_here ic as v" by blast
    show "search_seq ic as (c # s)"
    proof (cases u)
      case Nil
      with uv have "match_here ic as (c # s)" by simp
      then show ?thesis by simp
    next
      case (Cons a u')
      with uv have "s = u' @ v" by simp
      with uv(2) have "search_seq ic as s" using Cons.IH by blast
      then show ?thesis by simp
    qed
  qed
qed

lemma match_here_class:
  "match_here False (lits e @ [OneOf qs]) s \<longleftrightarrow> (\<exists>q v. s = e @ q # v \<and> q \<in> set qs)"
proof (induction e arbitrary: s)
  case Nil
  show ?case by (cases s) (auto simp: lits_def)
next
  case (Cons a e)
  show ?case
  proof (cases s)
    case Nil
    then show ?thesis by (simp add: lits_def)
  next
    case (Cons c s')
    then show ?thesis using Cons.IH [of s'] by (auto simp: lits_def)
  qed
qed

lemma match_here_lits:
  "match_here True (lits p) s \<longleftrightarrow> (\<exists>w v. s = w @ v \<and> lower w = lower p)"
proof (induction p arbitrary: s)
  case Nil
  show ?case by (auto simp: lits_def lower_def)
next
  case (Cons a p)
  show ?case
  proof (cases s)
    case Nil
    then show ?thesis by (simp add: lits_def lower_def)
  next
    case (Cons c s')
    show ?thesis
    proof
      assume "match_here True (lits (a # p)) s"
      with Cons have h: "ascii_lower c = ascii_lower a" "match_here True (lits p) s'"
        by (auto simp: lits_def)
      then obtain w v where "s' = w @ v" "lower w = lower p" using Cons.IH by blast
      with h(1) Cons have "s = (c # w) @ v \<and> lower (c # w) = lower (a # p)"
        by (simp add: lower_def)
      then show "\<exists>w v. s = w @ v \<and> lower w = lower (a # p)" by blast
    next
      assume "\<exists>w v. s = w @ v \<and> lower w = lower (a # p)"
      then obtain w v where wv: "s = w @ v" "lower w = lower (a # p)" by blast
      then obtain c' w' where w: "w = c' # w'" by (cases w) (auto simp: lower_def)
      with wv Cons have "c' = c" "s' = w' @ v" "ascii_lower c = ascii_lower a" "lower w' = lower p"
        by (auto simp: lower_def)
      then have "match_here True (lits p) s'" using Cons.IH by blast
      with \<open>ascii_lower c = ascii_lower a\<close> Cons show "match_here True (lits (a # p)) s"
        by (simp add: lits_def)
    qed
  qed
qed

lemma match_here_fold: "lower s = lower s' \<Longrightarrow> match_here True as s = match_here True as s'"
proof (induction as arbitrary: s s')
  case Nil
  show ?case by simp
next
  case (Cons a as)
  show ?case
  proof (cases s)
    case Nil
    with Cons.prems show ?thesis by (simp add: lower_def)
  next
    case c: (Cons c t)
    with Cons.prems obtain c' t' where s': "s' = c' # t'" by (cases s') (auto simp: lower_def)
    with c Cons.prems have e: "ascii_lower c = ascii_lower c'" "lower t = lower t'"
      by (auto simp: lower_def)
    have "atom_ok True a c = atom_ok True a c'" using e(1) by (cases a) auto
    with Cons.IH [OF e(2)] c s' show ?thesis by simp
  qed
qed

lemma search_seq_fold: "lower s = lower s' \<Longrightarrow> search_seq True as s = search_seq True as s'"
proof (induction s arbitrary: s')
  case Nil
  then show ?case by (simp add: lower_def)
next
  case (Cons c t)
  then obtain c' t' where s': "s' = c' # t'" by (cases s') (auto simp: lower_def)
  with Cons.prems have "lower t = lower t'" by (simp add: lower_def)
  then have "search_seq True as t = search_seq True as t'" by (rule Cons.IH)
  with match_here_fold [OF Cons.prems, of as] s' show ?case by simp
qed

lemma re_search_fold: "lower s = lower s' \<Longrightarrow> re_search True r s = re_search True r s'"
  by (simp add: re_search_def search_seq_fold [of s s'])

lemma re_search_quoted_ext:
  "re_search False (quoted_ext ext) s \<longleftrightarrow>
     (\<exists>u q v. s = u @ ext @ q # v \<and> (q = dquote \<or> q = squote))"
proof -
  have "re_search False (quoted_ext ext) s \<longleftrightarrow>
          (\<exists>u w. s = u @ w \<and> (\<exists>q v. w = ext @ q # v \<and> q \<in> set [dquote, squote]))"
    by (simp add: re_search_def quoted_ext_def search_seq_iff match_here_class)
  also have "\<dots> \<longleftrightarrow> (\<exists>u q v. s = u @ ext @ q # v \<and> (q = dquote \<or> q = squote))"
    by auto
  finally show ?thesis .
qed

section \<open>Programming-language detection\<close>

text \<open>
  \<^verbatim>\<open>detect_programming_language\<close> as a function of the dictionary and the body it is given:
  the value stored under the exact key \<^verbatim>\<open>X-Powered-By\<close> decides first, then the first of the
  four extensions that occurs in the body directly before a quote.
\<close>

lemma detect_programming_language_chain:
  "detect_programming_language headers content =
     (if \<exists>u v. dict_get headers ''X-Powered-By'' '''' = u @ ''PHP'' @ v then ''PHP''
      else if \<exists>u v. dict_get headers ''X-Powered-By'' '''' = u @ ''ASP.NET'' @ v then ''ASP.NET''
      else if \<exists>u q v. content = u @ ''.php'' @ q # v \<and> (q = dquote \<or> q = squote) then ''PHP''
      else if \<exists>u q v. content = u @ ''.aspx'' @ q # v \<and> (q = dquote \<or> q = squote) then ''ASP.NET''
      else if \<exists>u q v. content = u @ ''.jsp'' @ q # v \<and> (q = dquote \<or> q = squote) then ''Java''
      else if \<exists>u q v. content = u @ ''.py'' @ q # v \<and> (q = dquote \<or> q = squote) then ''Python''
      else ''Unknown'')
   \<and> (detect_programming_language headers content = ''Unknown'' \<longleftrightarrow>
        \<not> ((\<exists>u v. dict_get headers ''X-Powered-By'' '''' = u @ ''PHP'' @ v)
          \<or> (\<exists>u v. dict_get headers ''X-Powered-By'' '''' = u @ ''ASP.NET'' @ v)
          \<or> (\<exists>u q v. content = u @ ''.php'' @ q # v \<and> (q = dquote \<or> q = squote))
          \<or> (\<exists>u q v. content = u @ ''.aspx'' @ q # v \<and> (q = dquote \<or> q = squote))
          \<or> (\<exists>u q v. content = u @ ''.jsp'' @ q # v \<and> (q = dquote \<or> q = squote))
          \<or> (\<exists>u q v. content = u @ ''.py'' @ q # v \<and> (q = dquote \<or> q = squote))))"
  unfolding detect_programming_language_def Let_def re_search_quoted_ext str_in_iff
  by simp

lemma lower_append: "lower (a @ b) = lower a @ lower b"
  by (simp add: lower_def)

lemma lower_eq_append:
  "lower s = a @ b \<longleftrightarrow> (\<exists>u v. s = u @ v \<and> lower u = a \<and> lower v = b)"
  unfolding lower_def by (auto simp: map_eq_append_conv)

lemma search_seq_lits:
  "search_seq True (lits p) s \<longleftrightarrow> str_in (lower p) (lower s)"
proof -
  have "search_seq True (lits p) s \<longleftrightarrow> (\<exists>u w v. s = u @ w @ v \<and> lower w = lower p)"
    unfolding search_seq_iff match_here_lits by blast
  also have "\<dots> \<longleftrightarrow> (\<exists>a c. lower s = a @ lower p @ c)"
  proof
    assume "\<exists>u w v. s = u @ w @ v \<and> lower w = lower p"
    then obtain u w v where "s = u @ w @ v" "lower w = lower p" by blast
    then have "lower s = lower u @ lower p @ lower v" by (simp add: lower_append)
    then show "\<exists>a c. lower s = a @ lower p @ c" by blast
  next
    assume "\<exists>a c. lower s = a @ lower p @ c"
    then obtain a c where "lower s = a @ lower p @ c" by blast
    then obtain u t where ut: "s = u @ t" "lower t = lower p @ c"
      unfolding lower_eq_append by blast
    then obtain w v where "t = w @ v" "lower w = lower p"
      unfolding lower_eq_append by blast
    with ut show "\<exists>u w v. s = u @ w @ v \<and> lower w = lower p" by blast
  qed
  finally show ?thesis by (simp add: str_in_iff)
qed

section \<open>JavaScript frameworks\<close>

lemma collect_frameworks_filter:
  "collect_frameworks ps content acc =
     acc @ map fst (filter (\<lambda>(l, p). re_search True p content) ps)"
  by (induction ps arbitrary: acc) auto

lemma lower_literals:
  "lower ''react'' = ''react''" "lower ''reactjs'' = ''reactjs''"
  "lower ''vue.js'' = ''vue.js''" "lower ''vuejs'' = ''vuejs''"
  "lower ''angular'' = ''angular''" "lower ''ng-'' = ''ng-''"
  "lower ''jquery'' = ''jquery''"
  by (simp_all add: lower_def ascii_lower_def)

lemma js_frameworks_cases:
  "js_frameworks content =
     (if str_in ''react'' (lower content) \<or> str_in ''reactjs'' (lower content) then [''React''] else []) @
     (if str_in ''vue.js'' (lower content) \<or> str_in ''vuejs'' (lower content) then [''Vue.js''] else []) @
     (if str_in ''angular'' (lower content) \<or> str_in ''ng-'' (lower content) then [''Angular''] else []) @
     (if str_in ''jquery'' (lower content) then [''jQuery''] else [])"
proof -
  have r: "re_search True [lits ''react'', lits ''reactjs''] content \<longleftrightarrow>
           str_in ''react'' (lower content) \<or> str_in ''reactjs'' (lower content)"
    using search_seq_lits [of "''react''" content] search_seq_lits [of "''reactjs''" content]
    by (simp add: re_search_def lower_literals)
  have v: "re_search True [lits ''vue.js'', lits ''vuejs''] content \<longleftrightarrow>
           str_in ''vue.js'' (lower content) \<or> str_in ''vuejs'' (lower content)"
    using search_seq_lits [of "''vue.js''" content] search_seq_lits [of "''vuejs''" content]
    by (simp add: re_search_def lower_literals)
  have a: "re_search True [lits ''angular'', lits ''ng-''] content \<longleftrightarrow>
           str_in ''angular'' (lower content) \<or> str_in ''ng-'' (lower content)"
    using search_seq_lits [of "''angular''" content] search_seq_lits [of "''ng-''" content]
    by (simp add: re_search_def lower_literals)
  have j: "re_search True [lits ''jquery''] content \<longleftrightarrow> str_in ''jquery'' (lower content)"
    using search_seq_lits [of "''jquery''" content]
    by (simp add: re_search_def lower_literals)
  show ?thesis
    unfolding js_frameworks_def collect_frameworks_filter framework_patterns_def
    by (simp add: r v a j del: str_in.simps)
qed

text \<open>
  Claim C7. \<^verbatim>\<open>detect_js_frameworks\<close> tests each of the four patterns on its own and without
  regard to letter case, and keeps every label whose pattern matches, in the order React,
  Vue.js, Angular, jQuery; the result is the labels joined by a comma and a space, and it is
  \<^verbatim>\<open>Unknown\<close> exactly when no label was kept. A body that contains both \<^verbatim>\<open>react\<close> and
  \<^verbatim>\<open>jquery\<close> in any letter case yields a result that starts with React and ends with
  jQuery.
\<close>

theorem detect_js_frameworks_accumulates:
  "(''React'' \<in> set (js_frameworks content) \<longleftrightarrow>
      str_in ''react'' (lower content) \<or> str_in ''reactjs'' (lower content))
   \<and> (''Vue.js'' \<in> set (js_frameworks content) \<longleftrightarrow>
      str_in ''vue.js'' (lower content) \<or> str_in ''vuejs'' (lower content))
   \<and> (''Angular'' \<in> set (js_frameworks content) \<longleftrightarrow>
      str_in ''angular'' (lower content) \<or> str_in ''ng-'' (lower content))
   \<and> (''jQuery'' \<in> set (js_frameworks content) \<longleftrightarrow> str_in ''jquery'' (lower content))
   \<and> js_frameworks content =
       filter (\<lambda>l. l \<in> set (js_frameworks content)) [''React'', ''Vue.js'', ''Angular'', ''jQuery'']
   \<and> detect_js_frameworks content =
       (if js_frameworks content = [] then ''Unknown'' else join '', '' (js_frameworks content))
   \<and> (detect_js_frameworks content = ''Unknown'' \<longleftrightarrow> js_frameworks content = [])
   \<and> (str_in ''react'' (lower content) \<and> str_in ''jquery'' (lower content) \<longrightarrow>
        (\<exists>mid. detect_js_frameworks content = ''React'' @ mid @ ''jQuery''))"
proof -
  define R where "R = (str_in ''react'' (lower content) \<or> str_in ''reactjs'' (lower content))"
  define V where "V = (str_in ''vue.js'' (lower content) \<or> str_in ''vuejs'' (lower content))"
  define A where "A = (str_in ''angular'' (lower content) \<or> str_in ''ng-'' (lower content))"
  define J where "J = str_in ''jquery'' (lower content)"
  have fs: "js_frameworks content =
      (if R then [''React''] else []) @ (if V then [''Vue.js''] else []) @
      (if A then [''Angular''] else []) @ (if J then [''jQuery''] else [])"
    unfolding R_def V_def A_def J_def by (rule js_frameworks_cases)
  have c1: "''React'' \<in> set (js_frameworks content) \<longleftrightarrow> R" by (simp add: fs)
  have c2: "''Vue.js'' \<in> set (js_frameworks content) \<longleftrightarrow> V" by (simp add: fs)
  have c3: "''Angular'' \<in> set (js_frameworks content) \<longleftrightarrow> A" by (simp add: fs)
  have c4: "''jQuery'' \<in> set (js_frameworks content) \<longleftrightarrow> J" by (simp add: fs)
  have c5: "js_frameworks content =
       filter (\<lambda>l. l \<in> set (js_frameworks content)) [''React'', ''Vue.js'', ''Angular'', ''jQuery'']"
    by (cases R; cases V; cases A; cases J) (simp_all add: fs)
  have c6: "detect_js_frameworks content =
       (if js_frameworks content = [] then ''Unknown'' else join '', '' (js_frameworks content))"
    by (simp add: detect_js_frameworks_def Let_def)
  have c7: "detect_js_frameworks content = ''Unknown'' \<longleftrightarrow> js_frameworks content = []"
    unfolding c6 by (cases R; cases V; cases A; cases J) (simp_all add: fs)
  have c8: "\<exists>mid. detect_js_frameworks content = ''React'' @ mid @ ''jQuery''" if "R" "J"
  proof -
    have "detect_js_frameworks content =
            ''React'' @ ('', '' @ (if V then ''Vue.js, '' else '''') @ (if A then ''Angular, '' else ''''))
               @ ''jQuery''"
      unfolding c6 using that by (cases V; cases A) (simp_all add: fs)
    then show ?thesis by blast
  qed
  show ?thesis
    using c1 c2 c3 c4 c5 c6 c7 c8 unfolding R_def V_def A_def J_def by blast
qed

theorem detect_js_frameworks_accumulates_witness:
  "str_in ''react'' (lower ''<script src=React.js></script><script src=JQUERY.min.js>'')
   \<and> str_in ''jquery'' (lower ''<script src=React.js></script><script src=JQUERY.min.js>'')
   \<and> (\<exists>mid. detect_js_frameworks ''<script src=React.js></script><script src=JQUERY.min.js>''
               = ''React'' @ mid @ ''jQuery'')"
proof -
  have a: "str_in ''react'' (lower ''<script src=React.js></script><script src=JQUERY.min.js>'')"
    by code_simp
  have b: "str_in ''jquery'' (lower ''<script src=React.js></script><script src=JQUERY.min.js>'')"
    by code_simp
  from a b detect_js_frameworks_accumulates
    [of "''<script src=React.js></script><script src=JQUERY.min.js>''"]
  show ?thesis by blast
qed

section \<open>Letter case in detection\<close>

lemma first_label_fold:
  "lower b = lower b' \<Longrightarrow> first_label ps b d = first_label ps b' d"
  by (induction ps) (auto simp: re_search_fold [of b b'])

lemma collect_frameworks_fold:
  "lower b = lower b' \<Longrightarrow> collect_frameworks ps b acc = collect_frameworks ps b' acc"
  by (induction ps arbitrary: acc) (auto simp: re_search_fold [of b b'])

lemma re_search_two:
  "re_search True [lits p, lits q] s \<longleftrightarrow>
     str_in (lower p) (lower s) \<or> str_in (lower q) (lower s)"
  by (simp add: re_search_def search_seq_lits del: str_in.simps)

lemma re_search_three:
  "re_search True [lits p, lits q, lits r] s \<longleftrightarrow>
     str_in (lower p) (lower s) \<or> str_in (lower q) (lower s) \<or> str_in (lower r) (lower s)"
  by (simp add: re_search_def search_seq_lits del: str_in.simps)

lemma re_search_one:
  "re_search True [lits p] s \<longleftrightarrow> str_in (lower p) (lower s)"
  by (simp add: re_search_def search_seq_lits del: str_in.simps)

lemma lower_cms_literals:
  "lower ''wp-content'' = ''wp-content''" "lower ''wp-includes'' = ''wp-includes''"
  "lower ''wordpress'' = ''wordpress''" "lower ''drupal'' = ''drupal''"
  "lower ''sites/default'' = ''sites/default''" "lower ''joomla'' = ''joomla''"
  "lower ''option=com_'' = ''option=com_''" "lower ''magento'' = ''magento''"
  "lower ''mage/js'' = ''mage/js''" "lower ''shopify'' = ''shopify''"
  "lower ''cdn.shopify'' = ''cdn.shopify''"
  by code_simp+

lemma lower_analytics_literals:
  "lower ''google-analytics'' = ''google-analytics''" "lower ''gtag'' = ''gtag''"
  "lower ''ga('' = ''ga(''" "lower ''googletagmanager'' = ''googletagmanager''"
  "lower ''facebook.net/tr'' = ''facebook.net/tr''" "lower ''fbq('' = ''fbq(''"
  "lower ''hotjar'' = ''hotjar''"
  by code_simp+

lemma detect_cms_chain:
  "detect_cms b =
     (if str_in ''wp-content'' (lower b) \<or> str_in ''wp-includes'' (lower b)
         \<or> str_in ''wordpress'' (lower b) then ''WordPress''
      else if str_in ''drupal'' (lower b) \<or> str_in ''sites/default'' (lower b) then ''Drupal''
      else if str_in ''joomla'' (lower b) \<or> str_in ''option=com_'' (lower b) then ''Joomla''
      else if str_in ''magento'' (lower b) \<or> str_in ''mage/js'' (lower b) then ''Magento''
      else if str_in ''shopify'' (lower b) \<or> str_in ''cdn.shopify'' (lower b) then ''Shopify''
      else ''Custom/Unknown'')"
  unfolding detect_cms_def cms_patterns_def first_label.simps re_search_two re_search_three
    lower_cms_literals
  by (rule refl)

lemma detect_analytics_chain:
  "detect_analytics b =
     (if str_in ''google-analytics'' (lower b) \<or> str_in ''gtag'' (lower b)
         \<or> str_in ''ga('' (lower b) then ''Google Analytics''
      else if str_in ''googletagmanager'' (lower b) then ''Google Tag Manager''
      else if str_in ''facebook.net/tr'' (lower b) \<or> str_in ''fbq('' (lower b)
        then ''Facebook Pixel''
      else if str_in ''hotjar'' (lower b) then ''Hotjar''
      else ''None detected'')"
  unfolding detect_analytics_def analytics_patterns_def first_label.simps re_search_one
    re_search_two re_search_three lower_analytics_literals
  by (rule refl)

text \<open>
  Claim C10. Language detection from the body is case-sensitive: the body \<^verbatim>\<open>index.PHP"\<close>,
  which carries no other language signal, gives \<^verbatim>\<open>Unknown\<close>, while \<^verbatim>\<open>index.php"\<close> gives
  PHP. CMS, JavaScript-framework and analytics detection are case-insensitive. For every
  body, each of them decides by whether its patterns occur in the body after all letters
  are put in lower case: \<^verbatim>\<open>detect_cms\<close> and \<^verbatim>\<open>detect_analytics\<close> return the first label of
  their table one of whose patterns occurs so, \<^verbatim>\<open>detect_js_frameworks\<close> joins all such
  labels. Hence two bodies that differ in letter case only get the same result, and the
  bodies \<^verbatim>\<open>WP-CONTENT\<close>, \<^verbatim>\<open>SITES/DEFAULT\<close>, \<^verbatim>\<open>HOTJAR\<close>, \<^verbatim>\<open>GTAG\<close> and \<^verbatim>\<open>JQUERY\<close> are
  classified as WordPress, Drupal, Hotjar, Google Analytics and jQuery.
\<close>

theorem language_case_sensitive_others_not:
  "detect_programming_language [] (''index.PHP'' @ [dquote]) = ''Unknown''
   \<and> detect_programming_language [] (''index.php'' @ [dquote]) = ''PHP''
   \<and> detect_cms ''WP-CONTENT'' = ''WordPress''
   \<and> (\<forall>b b'. lower b = lower b' \<longrightarrow>
         detect_cms b = detect_cms b'
         \<and> detect_js_frameworks b = detect_js_frameworks b'
         \<and> detect_analytics b = detect_analytics b')
   \<and> (\<forall>b. detect_cms b =
        (if str_in ''wp-content'' (lower b) \<or> str_in ''wp-includes'' (lower b)
            \<or> str_in ''wordpress'' (lower b) then ''WordPress''
         else if str_in ''drupal'' (lower b) \<or> str_in ''sites/default'' (lower b)
           then ''Drupal''
         else if str_in ''joomla'' (lower b) \<or> str_in ''option=com_'' (lower b)
           then ''Joomla''
         else if str_in ''magento'' (lower b) \<or> str_in ''mage/js'' (lower b)
           then ''Magento''
         else if str_in ''shopify'' (lower b) \<or> str_in ''cdn.shopify'' (lower b)
           then ''Shopify''
         else ''Custom/Unknown''))
   \<and> (\<forall>b. detect_analytics b =
        (if str_in ''google-analytics'' (lower b) \<or> str_in ''gtag'' (lower b)
            \<or> str_in ''ga('' (lower b) then ''Google Analytics''
         else if str_in ''googletagmanager'' (lower b) then ''Google Tag Manager''
         else if str_in ''facebook.net/tr'' (lower b) \<or> str_in ''fbq('' (lower b)
           then ''Facebook Pixel''
         else if str_in ''hotjar'' (lower b) then ''Hotjar''
         else ''None detected''))
   \<and> (\<forall>b. js_frameworks b =
        (if str_in ''react'' (lower b) \<or> str_in ''reactjs'' (lower b)
           then [''React''] else []) @
        (if str_in ''vue.js'' (lower b) \<or> str_in ''vuejs'' (lower b)
           then [''Vue.js''] else []) @
        (if str_in ''angular'' (lower b) \<or> str_in ''ng-'' (lower b)
           then [''Angular''] else []) @
        (if str_in ''jquery'' (lower b) then [''jQuery''] else []))
   \<and> (\<forall>b. detect_js_frameworks b =
        (if js_frameworks b = [] then ''Unknown'' else join '', '' (js_frameworks b)))
   \<and> detect_cms ''SITES/DEFAULT'' = ''Drupal''
   \<and> detect_analytics ''HOTJAR'' = ''Hotjar''
   \<and> detect_analytics ''GTAG'' = ''Google Analytics''
   \<and> detect_js_frameworks ''JQUERY'' = ''jQuery''
   \<and> detect_js_frameworks ''Vue.JS and NG-app'' = ''Vue.js, Angular''"
proof -
  have a: "detect_programming_language [] (''index.PHP'' @ [dquote]) = ''Unknown''"
    by code_simp
  have b: "detect_programming_language [] (''index.php'' @ [dquote]) = ''PHP''"
    by code_simp
  have c: "detect_cms ''WP-CONTENT'' = ''WordPress''"
    by code_simp
  have d: "detect_cms x = detect_cms y \<and> detect_js_frameworks x = detect_js_frameworks y
           \<and> detect_analytics x = detect_analytics y" if "lower x = lower y" for x y
    using that
    by (simp add: detect_cms_def detect_analytics_def detect_js_frameworks_def js_frameworks_def
        first_label_fold [of x y] collect_frameworks_fold [of x y])
  have e: "detect_js_frameworks x =
        (if js_frameworks x = [] then ''Unknown'' else join '', '' (js_frameworks x))" for x
    by (simp add: detect_js_frameworks_def Let_def)
  have i1: "detect_cms ''SITES/DEFAULT'' = ''Drupal''" by code_simp
  have i2: "detect_analytics ''HOTJAR'' = ''Hotjar''" by code_simp
  have i3: "detect_analytics ''GTAG'' = ''Google Analytics''" by code_simp
  have i4: "detect_js_frameworks ''JQUERY'' = ''jQuery''" by code_simp
  have i5: "detect_js_frameworks ''Vue.JS and NG-app'' = ''Vue.js, Angular''" by code_simp
  from a b c d e i1 i2 i3 i4 i5 detect_cms_chain detect_analytics_chain js_frameworks_cases
  show ?thesis by blast
qed

theorem language_case_sensitive_others_not_witness:
  "lower ''<link href=/WP-Content/a.css>'' = lower ''<link href=/wp-content/a.css>''
   \<and> detect_cms ''<link href=/WP-Content/a.css>'' = detect_cms ''<link href=/wp-content/a.css>''
   \<and> detect_cms ''<link href=/wp-content/a.css>'' = ''WordPress''"
proof -
  have a: "lower ''<link href=/WP-Content/a.css>'' = lower ''<link href=/wp-content/a.css>''"
    by code_simp
  have b: "detect_cms ''<link href=/wp-content/a.css>'' = ''WordPress''"
    by code_simp
  from a b language_case_sensitive_others_not show ?thesis by blast
qed

section \<open>Security headers\<close>

lemma dict_in_iff: "dict_in k d \<longleftrightarrow> k \<in> set (dict_keys d)"
  by (simp add: dict_in_def dict_keys_def map_of_eq_None_iff)

lemma py_keys_str_dict: "py_keys (str_dict d) = dict_keys d"
  by (simp add: str_dict_def dict_keys_def comp_def case_prod_unfold)

text \<open>
  Claim C9. In the section returned by \<^verbatim>\<open>get_security_info\<close>, \<^verbatim>\<open>hsts_enabled\<close> is true exactly
  when \<^verbatim>\<open>Strict-Transport-Security\<close> is a key of the \<^verbatim>\<open>security_headers\<close> entry of the same
  section, and \<^verbatim>\<open>content_security_policy\<close> is true exactly when \<^verbatim>\<open>Content-Security-Policy\<close>
  is a key there, in every world and after any events.
\<close>

theorem security_flags_consistent:
  "py_item (fst (get_security_info w self t)) ''hsts_enabled'' =
     PBool (''Strict-Transport-Security''
              \<in> set (py_keys (py_item (fst (get_security_info w self t)) ''security_headers'')))
   \<and> py_item (fst (get_security_info w self t)) ''content_security_policy'' =
     PBool (''Content-Security-Policy''
              \<in> set (py_keys (py_item (fst (get_security_info w self t)) ''security_headers'')))"
  by (simp add: get_security_info_def dict_get_def dict_in_iff py_keys_str_dict
      split: prod.splits)

theorem security_flags_consistent_witness:
  "py_item (fst (get_security_info (world_up usual_headers example_cert) https_scanner []))
     ''hsts_enabled'' = PBool True
   \<and> py_item (fst (get_security_info (world_up usual_headers example_cert) https_scanner []))
     ''content_security_policy'' = PBool False"
proof -
  have k: "py_keys (py_item (fst (get_security_info (world_up usual_headers example_cert)
             https_scanner [])) ''security_headers'') = [''Strict-Transport-Security'']"
    by code_simp
  show ?thesis
    using security_flags_consistent [of "world_up usual_headers example_cert" https_scanner "[]"]
    unfolding k by simp
qed

text \<open>
  Claim C4 on a response whose header names are in lower case. The response carries
  \<^verbatim>\<open>strict-transport-security\<close> and \<^verbatim>\<open>content-encoding\<close>. \<^verbatim>\<open>get_security_headers\<close> looks the
  allow-listed names up in \<^verbatim>\<open>dict(response.headers)\<close>, finds none and records nothing, so
  \<^verbatim>\<open>hsts_enabled\<close> is false; \<^verbatim>\<open>check_compression\<close>, which asks \<^verbatim>\<open>response.headers\<close> itself,
  finds \<^verbatim>\<open>Content-Encoding\<close> on the same response. With the name in the casing of the
  allow-list the header is recorded.
\<close>

theorem security_headers_lookup_is_case_sensitive:
  "fst (get_security_headers (world_up lowercase_headers example_cert) https_scanner []) = []
   \<and> py_item (fst (get_security_info (world_up lowercase_headers example_cert) https_scanner []))
        ''hsts_enabled'' = PBool False
   \<and> fst (check_compression (world_up lowercase_headers example_cert) https_scanner [])
        = ''Enabled''
   \<and> fst (get_security_headers (world_up usual_headers example_cert) https_scanner [])
        = [(''Strict-Transport-Security'', ''max-age=31536000'')]"
  by code_simp

text \<open>
  Claim C6 on a response with the header \<^verbatim>\<open>x-powered-by: PHP/8.1\<close>, the name in lower case.
  \<^verbatim>\<open>get_technology_info\<close> hands \<^verbatim>\<open>dict(response.headers)\<close> to
  \<^verbatim>\<open>detect_programming_language\<close>, whose lookup of \<^verbatim>\<open>X-Powered-By\<close> in that dictionary finds
  nothing: the language is \<^verbatim>\<open>Unknown\<close>. With the name spelled \<^verbatim>\<open>X-Powered-By\<close> it is PHP, and
  \<^verbatim>\<open>get_server_info\<close>, which asks \<^verbatim>\<open>response.headers\<close> itself, finds a \<^verbatim>\<open>server\<close> header in
  lower case.
\<close>

theorem powered_by_lookup_is_case_sensitive:
  "py_item (fst (get_technology_info (world_up [(''x-powered-by'', ''PHP/8.1'')] example_cert)
      http_scanner [])) ''programming_language'' = PStr ''Unknown''
   \<and> py_item (fst (get_technology_info (world_up [(''X-Powered-By'', ''PHP/8.1'')] example_cert)
      http_scanner [])) ''programming_language'' = PStr ''PHP''
   \<and> py_item (fst (get_server_info (world_up [(''server'', ''nginx/1.18'')] example_cert)
      http_scanner [])) ''server'' = PStr ''nginx/1.18''"
  by code_simp

section \<open>The TLS probe\<close>

lemma get_ssl_info_skipped:
  "\<not> startswith (s_url self) ''https'' \<Longrightarrow>
   get_ssl_info w self t =
     (PDict [(''enabled'', PBool False), (''message'', PStr ''SSL not enabled'')], t)"
  by (simp add: get_ssl_info_def)

lemma get_ssl_info_failed:
  "startswith (s_url self) ''https'' \<Longrightarrow> w_getpeercert w t (s_domain self) = Inl e \<Longrightarrow>
   get_ssl_info w self t =
     (PDict [(''enabled'', PBool False), (''message'', PStr (''SSL error: '' @ str_exn e))],
      t @ [TlsConnect (s_domain self)])"
  by (simp add: get_ssl_info_def ssl_error_def)

text \<open>
  Claim C5 on the target \<^verbatim>\<open>httpsx://example.com\<close>. Its scheme is \<^verbatim>\<open>httpsx\<close>, not \<^verbatim>\<open>https\<close>, but
  \<^verbatim>\<open>get_ssl_info\<close> tests the text of the URL for the prefix \<^verbatim>\<open>https\<close> and opens a TLS
  connection to the host.
\<close>

theorem ssl_probe_tests_url_prefix:
  "w_urlparse (world_up usual_headers example_cert) (s_url httpsx_scanner)
     = Inr \<lparr>p_scheme = ''httpsx'', p_netloc = ''example.com'', p_port = Inr None\<rparr>
   \<and> snd (get_ssl_info (world_up usual_headers example_cert) httpsx_scanner [])
     = [TlsConnect ''example.com'']"
  by code_simp

section \<open>Page size\<close>

lemma py_int_2048: "py_int ''2048'' = Inr 2048"
  by (simp add: py_int_def is_ascii_digit_def digit_value_def)

lemma truediv_2048: "truediv_1024 2048 = Inr 2048"
  by (simp add: truediv_1024_def round_half_even_def Let_def)

lemma format_2048: "format_2f 2048 = ''2.00''"
  by (simp add: format_2f_def round_half_even_def Let_def digit_char_def)

lemma page_size_2048: "page_size ''2048'' = Inr ''2.00 KB''"
  by (simp add: page_size_def str_isdigit_def is_digit_char_def is_ascii_digit_def
      py_int_2048 truediv_2048 format_2048)

lemma page_size_not_digits: "\<not> str_isdigit s \<Longrightarrow> page_size s = Inr ''Unknown''"
  by (simp add: page_size_def)

text \<open>
  Claim C8 on a response with the header \<^verbatim>\<open>Content-Length: \<close>\<open>\<^sup>2\<close> (the single character
  U+00B2). The value is not a number, but \<^verbatim>\<open>isdigit\<close> accepts it; \<^verbatim>\<open>int\<close> then raises
  \<^verbatim>\<open>ValueError\<close>, which leaves \<^verbatim>\<open>get_performance_info\<close> and makes the whole scan fail.
\<close>

theorem page_size_superscript_digit:
  "str_isdigit [CHR 0xB2]
   \<and> fst (get_performance_info (world_up [(''Content-Length'', [CHR 0xB2])] example_cert)
          http_scanner [])
      = Inl (ValueError (''invalid literal for int() with base 10: '' @ [squote, CHR 0xB2, squote]))
   \<and> py_item (fst (scan (world_up [(''Content-Length'', [CHR 0xB2])] example_cert)
          http_scanner [])) ''success'' = PBool False"
  by code_simp
section \<open>Events and structure of a scan\<close>

lemma get_basic_info_events:
  "snd (get_basic_info w self t) =
     (case w_urlparse w (s_url self) of Inl e \<Rightarrow> t | Inr p \<Rightarrow> t @ [Urlopen (s_url self)])"
  by (simp add: get_basic_info_def Let_def split: sum.splits)

lemma get_server_info_events:
  "snd (get_server_info w self t) = t @ [Gethostbyname (s_domain self), Urlopen (s_url self)]"
  by (simp add: get_server_info_def Let_def)

lemma get_domain_info_events:
  "snd (get_domain_info w self t) = t @ [Nslookup (s_domain self)]"
  by (simp add: get_domain_info_def get_name_servers_def)

lemma get_ssl_info_events: "snd (get_ssl_info w self t) = t @ tls_events self"
  by (simp add: get_ssl_info_def tls_events_def)

lemma get_security_headers_events:
  "snd (get_security_headers w self t) = t @ [Urlopen (s_url self)]"
  by (simp add: get_security_headers_def)

lemma get_security_info_events:
  "snd (get_security_info w self t) = t @ tls_events self @ [Urlopen (s_url self)]"
  by (simp add: get_security_info_def split_beta Let_def get_ssl_info_events
      get_security_headers_events)

lemma check_compression_events:
  "snd (check_compression w self t) = t @ [Urlopen (s_url self)]"
  by (simp add: check_compression_def)

lemma check_caching_events:
  "snd (check_caching w self t) = t @ [Urlopen (s_url self)]"
  by (simp add: check_caching_def)

lemma get_performance_info_events:
  "snd (get_performance_info w self t) =
     t @ [Urlopen (s_url self), Urlopen (s_url self), Urlopen (s_url self)]"
  by (simp add: get_performance_info_def split_beta Let_def check_compression_events
      check_caching_events split: sum.splits)

lemma get_technology_info_events:
  "snd (get_technology_info w self t) = t @ [Urlopen (s_url self)]"
  by (simp add: get_technology_info_def split_beta Let_def)


lemma scan_unfold:
  "scan w self t =
     (case fst (get_basic_info w self t) of
        Inl e \<Rightarrow> (scan_failed e, snd (get_basic_info w self t))
      | Inr basic_info \<Rightarrow>
          (case fst (get_performance_info w self (t @ before_performance self)) of
             Inl e \<Rightarrow> (scan_failed e, t @ before_technology self)
           | Inr performance_info \<Rightarrow>
               (PDict
                  [(''success'', PBool True),
                   (''data'', PDict
                      [(''basic_info'', basic_info),
                       (''server_info'', fst (get_server_info w self (t @ before_server self))),
                       (''domain_info'', fst (get_domain_info w self (t @ before_domain self))),
                       (''security_info'',
                          fst (get_security_info w self (t @ before_security self))),
                       (''performance_info'', performance_info),
                       (''technology_info'',
                          fst (get_technology_info w self (t @ before_technology self)))]),
                   (''scan_time'', PStr (w_now w))],
                t @ scan_events self)))"
proof (cases "fst (get_basic_info w self t)")
  case (Inl e)
  then obtain t1 where g: "get_basic_info w self t = (Inl e, t1)"
    by (metis prod.collapse)
  then have "scan w self t = (scan_failed e, t1)"
    by (simp add: scan_def)
  with g show ?thesis by simp
next
  case (Inr bi)
  then have p: "w_urlparse w (s_url self) \<noteq> Inl e" for e
    by (auto simp: get_basic_info_def)
  then have t1: "snd (get_basic_info w self t) = t @ before_server self"
    by (simp add: get_basic_info_events before_server_def split: sum.splits)
  have t2: "snd (get_server_info w self (t @ before_server self)) = t @ before_domain self"
    by (simp add: get_server_info_events before_domain_def)
  have t3: "snd (get_domain_info w self (t @ before_domain self)) = t @ before_security self"
    by (simp add: get_domain_info_events before_security_def)
  have t4: "snd (get_security_info w self (t @ before_security self))
              = t @ before_performance self"
    by (simp add: get_security_info_events before_performance_def)
  have t5: "snd (get_performance_info w self (t @ before_performance self))
              = t @ before_technology self"
    by (simp add: get_performance_info_events before_technology_def)
  have t6: "snd (get_technology_info w self (t @ before_technology self)) = t @ scan_events self"
    by (simp add: get_technology_info_events scan_events_def)
  obtain b1 where g1: "get_basic_info w self t = (Inr bi, t @ before_server self)"
    using Inr t1 by (metis prod.collapse)
  obtain a2 where g2: "get_server_info w self (t @ before_server self) = (a2, t @ before_domain self)"
    using t2 by (metis prod.collapse)
  obtain a3 where g3: "get_domain_info w self (t @ before_domain self) = (a3, t @ before_security self)"
    using t3 by (metis prod.collapse)
  obtain a4 where g4: "get_security_info w self (t @ before_security self)
                         = (a4, t @ before_performance self)"
    using t4 by (metis prod.collapse)
  obtain a5 where g5: "get_performance_info w self (t @ before_performance self)
                         = (a5, t @ before_technology self)"
    using t5 by (metis prod.collapse)
  obtain a6 where g6: "get_technology_info w self (t @ before_technology self)
                         = (a6, t @ scan_events self)"
    using t6 by (metis prod.collapse)
  show ?thesis
    by (cases a5) (simp_all add: scan_def g1 g2 g3 g4 g5 g6)
qed
section \<open>Requests of a scan\<close>

lemma scan_success_iff:
  "py_item (fst (scan w self t)) ''success'' = PBool True \<longleftrightarrow>
     (\<exists>bi pi. fst (get_basic_info w self t) = Inr bi
        \<and> fst (get_performance_info w self (t @ before_performance self)) = Inr pi)"
proof (cases "fst (get_basic_info w self t)")
  case (Inl e)
  then show ?thesis by (simp add: scan_unfold scan_failed_def dict_get_def)
next
  case bi: (Inr bi)
  show ?thesis
  proof (cases "fst (get_performance_info w self (t @ before_performance self))")
    case (Inl e)
    with bi show ?thesis by (simp add: scan_unfold scan_failed_def dict_get_def)
  next
    case (Inr pi)
    with bi show ?thesis by (simp add: scan_unfold dict_get_def)
  qed
qed






section \<open>Shape of the report\<close>


















section \<open>Failure of one call\<close>

lemma fail_call_urlparse [simp]: "w_urlparse (fail_call w at ev e) = w_urlparse w"
  by (cases ev) simp_all

lemma fail_call_now [simp]: "w_now (fail_call w at ev e) = w_now w"
  by (cases ev) simp_all

lemma fail_call_urlopen:
  "w_urlopen (fail_call w at ev e) t x =
     (if ev = Urlopen x \<and> t = at then Inl e else w_urlopen w t x)"
  by (cases ev) auto

lemma fail_call_gethostbyname:
  "w_gethostbyname (fail_call w at ev e) t x =
     (if ev = Gethostbyname x \<and> t = at then Inl e else w_gethostbyname w t x)"
  by (cases ev) auto

lemma fail_call_nslookup:
  "w_nslookup (fail_call w at ev e) t x =
     (if ev = Nslookup x \<and> t = at then Inl e else w_nslookup w t x)"
  by (cases ev) auto

lemma fail_call_getpeercert:
  "w_getpeercert (fail_call w at ev e) t x =
     (if ev = TlsConnect x \<and> t = at then Inl e else w_getpeercert w t x)"
  by (cases ev) auto

lemmas fail_call_answers =
  fail_call_urlopen fail_call_gethostbyname fail_call_nslookup fail_call_getpeercert

lemma get_basic_info_frame:
  "length at < length t \<or> length t + 1 \<le> length at \<Longrightarrow>
   get_basic_info (fail_call w at ev e) self t = get_basic_info w self t"
  by (cases "w_urlparse w (s_url self)") (auto simp: get_basic_info_def fail_call_answers)

lemma get_server_info_frame:
  "length at < length t \<or> length t + 2 \<le> length at \<Longrightarrow>
   get_server_info (fail_call w at ev e) self t = get_server_info w self t"
  by (auto simp: get_server_info_def Let_def fail_call_answers)

lemma get_domain_info_frame:
  "length at < length t \<or> length t + 1 \<le> length at \<Longrightarrow>
   get_domain_info (fail_call w at ev e) self t = get_domain_info w self t"
  by (auto simp: get_domain_info_def get_name_servers_def fail_call_answers)

lemma get_security_info_frame:
  "length at < length t \<or> length t + length (tls_events self) + 1 \<le> length at \<Longrightarrow>
   get_security_info (fail_call w at ev e) self t = get_security_info w self t"
  by (auto simp: get_security_info_def get_ssl_info_def get_security_headers_def
      tls_events_def split_beta fail_call_answers)

lemma get_performance_info_frame:
  "length at < length t \<or> length t + 3 \<le> length at \<Longrightarrow>
   get_performance_info (fail_call w at ev e) self t = get_performance_info w self t"
  by (auto simp: get_performance_info_def check_compression_def check_caching_def
      split_beta Let_def fail_call_answers)

lemma get_technology_info_frame:
  "length at < length t \<or> length t + 1 \<le> length at \<Longrightarrow>
   get_technology_info (fail_call w at ev e) self t = get_technology_info w self t"
  by (auto simp: get_technology_info_def split_beta fail_call_answers)

lemma get_basic_info_still_returns:
  "fst (get_basic_info w self t) = Inr bi \<Longrightarrow>
   \<exists>bi'. fst (get_basic_info (fail_call w at ev e) self t) = Inr bi'"
  by (auto simp: get_basic_info_def Let_def split: sum.splits)

lemma page_size_Unknown: "page_size ''Unknown'' = Inr ''Unknown''"
  by (simp add: page_size_def)

lemma get_performance_info_still_returns:
  "fst (get_performance_info w self t) = Inr pi \<Longrightarrow>
   \<exists>pi'. fst (get_performance_info (fail_call w at ev e) self t) = Inr pi'"
  by (auto simp: get_performance_info_def split_beta Let_def fail_call_urlopen page_size_Unknown
      split: sum.splits)
section \<open>One failure, one category\<close>

lemma before_lengths:
  "length (before_server self) = 1"
  "length (before_domain self) = 3"
  "length (before_security self) = 4"
  "length (before_performance self) = 5 + length (tls_events self)"
  "length (before_technology self) = 8 + length (tls_events self)"
  by (simp_all add: before_server_def before_domain_def before_security_def
      before_performance_def before_technology_def)

lemma scan_sections:
  assumes "fst (get_basic_info w self t) = Inr bi"
    and "fst (get_performance_info w self (t @ before_performance self)) = Inr pi"
  shows "py_item (fst (scan w self t)) ''success'' = PBool True"
    and "py_path (fst (scan w self t)) [''data'', ''basic_info''] = bi"
    and "py_path (fst (scan w self t)) [''data'', ''server_info'']
           = fst (get_server_info w self (t @ before_server self))"
    and "py_path (fst (scan w self t)) [''data'', ''domain_info'']
           = fst (get_domain_info w self (t @ before_domain self))"
    and "py_path (fst (scan w self t)) [''data'', ''security_info'']
           = fst (get_security_info w self (t @ before_security self))"
    and "py_path (fst (scan w self t)) [''data'', ''performance_info''] = pi"
    and "py_path (fst (scan w self t)) [''data'', ''technology_info'']
           = fst (get_technology_info w self (t @ before_technology self))"
  using assms by (simp_all add: scan_unfold dict_get_def)

lemma one_failure_changes_one_category:
  assumes ok: "py_item (fst (scan w self [])) ''success'' = PBool True"
  shows "py_item (fst (scan (fail_call w at ev e) self [])) ''success'' = PBool True
    \<and> (\<exists>c \<in> set categories. \<forall>c' \<in> set categories. c' \<noteq> c \<longrightarrow>
          py_path (fst (scan (fail_call w at ev e) self [])) [''data'', c']
            = py_path (fst (scan w self [])) [''data'', c'])"
proof -
  let ?w' = "fail_call w at ev e"
  let ?L = "length at"
  let ?s = "length (tls_events self)"
  from ok obtain bi pi where
    bi: "fst (get_basic_info w self []) = Inr bi" and
    pi: "fst (get_performance_info w self ([] @ before_performance self)) = Inr pi"
    unfolding scan_success_iff by blast
  obtain bi' where bi': "fst (get_basic_info ?w' self []) = Inr bi'"
    using get_basic_info_still_returns [OF bi] by blast
  obtain pi' where pi': "fst (get_performance_info ?w' self ([] @ before_performance self)) = Inr pi'"
    using get_performance_info_still_returns [OF pi] by blast
  note S = scan_sections [OF bi pi]
  note S' = scan_sections [OF bi' pi']
  have e1: "py_path (fst (scan ?w' self [])) [''data'', ''basic_info'']
              = py_path (fst (scan w self [])) [''data'', ''basic_info'']" if "1 \<le> ?L"
  proof -
    have "get_basic_info ?w' self [] = get_basic_info w self []"
      using that by (intro get_basic_info_frame) simp
    with bi bi' have "bi' = bi" by simp
    then show ?thesis unfolding S(2) S'(2) by simp
  qed
  have e2: "py_path (fst (scan ?w' self [])) [''data'', ''server_info'']
              = py_path (fst (scan w self [])) [''data'', ''server_info'']"
    if "?L < 1 \<or> 3 \<le> ?L"
    unfolding S(3) S'(3)
    using that by (subst get_server_info_frame) (auto simp: before_lengths)
  have e3: "py_path (fst (scan ?w' self [])) [''data'', ''domain_info'']
              = py_path (fst (scan w self [])) [''data'', ''domain_info'']"
    if "?L < 3 \<or> 4 \<le> ?L"
    unfolding S(4) S'(4)
    using that by (subst get_domain_info_frame) (auto simp: before_lengths)
  have e4: "py_path (fst (scan ?w' self [])) [''data'', ''security_info'']
              = py_path (fst (scan w self [])) [''data'', ''security_info'']"
    if "?L < 4 \<or> 5 + ?s \<le> ?L"
    unfolding S(5) S'(5)
    using that by (subst get_security_info_frame) (auto simp: before_lengths)
  have e5: "py_path (fst (scan ?w' self [])) [''data'', ''performance_info'']
              = py_path (fst (scan w self [])) [''data'', ''performance_info'']"
    if "?L < 5 + ?s \<or> 8 + ?s \<le> ?L"
  proof -
    have "get_performance_info ?w' self ([] @ before_performance self)
            = get_performance_info w self ([] @ before_performance self)"
      using that by (intro get_performance_info_frame) (auto simp: before_lengths)
    with pi pi' have "pi' = pi" by simp
    then show ?thesis unfolding S(6) S'(6) by simp
  qed
  have e6: "py_path (fst (scan ?w' self [])) [''data'', ''technology_info'']
              = py_path (fst (scan w self [])) [''data'', ''technology_info'']"
    if "?L < 8 + ?s \<or> 9 + ?s \<le> ?L"
    unfolding S(7) S'(7)
    using that by (subst get_technology_info_frame) (auto simp: before_lengths)
  consider "?L < 1" | "1 \<le> ?L" "?L < 3" | "?L = 3" | "4 \<le> ?L" "?L < 5 + ?s"
    | "5 + ?s \<le> ?L" "?L < 8 + ?s" | "8 + ?s \<le> ?L"
    by linarith
  then have "\<exists>c \<in> set categories. \<forall>c' \<in> set categories. c' \<noteq> c \<longrightarrow>
          py_path (fst (scan ?w' self [])) [''data'', c']
            = py_path (fst (scan w self [])) [''data'', c']"
  proof cases
    case 1
    then have "\<forall>c' \<in> set categories. c' \<noteq> ''basic_info'' \<longrightarrow>
          py_path (fst (scan ?w' self [])) [''data'', c']
            = py_path (fst (scan w self [])) [''data'', c']"
      using e2 e3 e4 e5 e6 by (simp add: categories_def)
    then show ?thesis by (intro bexI [of _ "''basic_info''"]) (simp_all add: categories_def)
  next
    case 2
    then have "\<forall>c' \<in> set categories. c' \<noteq> ''server_info'' \<longrightarrow>
          py_path (fst (scan ?w' self [])) [''data'', c']
            = py_path (fst (scan w self [])) [''data'', c']"
      using e1 e3 e4 e5 e6 by (simp add: categories_def)
    then show ?thesis by (intro bexI [of _ "''server_info''"]) (simp_all add: categories_def)
  next
    case 3
    then have "\<forall>c' \<in> set categories. c' \<noteq> ''domain_info'' \<longrightarrow>
          py_path (fst (scan ?w' self [])) [''data'', c']
            = py_path (fst (scan w self [])) [''data'', c']"
      using e1 e2 e4 e5 e6 by (simp add: categories_def)
    then show ?thesis by (intro bexI [of _ "''domain_info''"]) (simp_all add: categories_def)
  next
    case 4
    then have "\<forall>c' \<in> set categories. c' \<noteq> ''security_info'' \<longrightarrow>
          py_path (fst (scan ?w' self [])) [''data'', c']
            = py_path (fst (scan w self [])) [''data'', c']"
      using e1 e2 e3 e5 e6 by (simp add: categories_def)
    then show ?thesis by (intro bexI [of _ "''security_info''"]) (simp_all add: categories_def)
  next
    case 5
    then have "\<forall>c' \<in> set categories. c' \<noteq> ''performance_info'' \<longrightarrow>
          py_path (fst (scan ?w' self [])) [''data'', c']
            = py_path (fst (scan w self [])) [''data'', c']"
      using e1 e2 e3 e4 e6 by (simp add: categories_def)
    then show ?thesis by (intro bexI [of _ "''performance_info''"]) (simp_all add: categories_def)
  next
    case 6
    then have "\<forall>c' \<in> set categories. c' \<noteq> ''technology_info'' \<longrightarrow>
          py_path (fst (scan ?w' self [])) [''data'', c']
            = py_path (fst (scan w self [])) [''data'', c']"
      using e1 e2 e3 e4 e5 by (simp add: categories_def)
    then show ?thesis by (intro bexI [of _ "''technology_info''"]) (simp_all add: categories_def)
  qed
  with S'(1) show ?thesis by blast
qed
section \<open>The report for an unreachable host\<close>

lemma unreachable_basic:
  assumes "all_calls_fail w" "w_urlparse w (s_url self) = Inr p" "p_port p = Inr port"
  shows "fst (get_basic_info w self t) =
     Inr (PDict
       [(''url'', PStr (s_url self)),
        (''domain'', PStr (s_domain self)),
        (''status_code'', PStr ''Unknown''),
        (''protocol'', PStr (p_scheme p)),
        (''port'', PInt (case port of
                           None \<Rightarrow> if p_scheme p = ''https'' then 443 else 80
                         | Some n \<Rightarrow>
                             if n = 0 then if p_scheme p = ''https'' then 443 else 80
                             else n))])"
proof -
  from assms(1) obtain e where "w_urlopen w t (s_url self) = Inl e"
    unfolding all_calls_fail_def by (metis isl_def)
  with assms(2,3) show ?thesis by (simp add: get_basic_info_def Let_def)
qed

lemma unreachable_server:
  assumes "all_calls_fail w"
  shows "fst (get_server_info w self t) =
     PDict
       [(''ip_address'', PStr ''Unknown''),
        (''server'', PStr ''Unknown''),
        (''location'', PStr ''Unknown''),
        (''city'', PStr ''Unknown''),
        (''isp'', PStr ''Unknown'')]"
proof -
  from assms obtain e where a: "w_gethostbyname w t (s_domain self) = Inl e"
    unfolding all_calls_fail_def by (metis isl_def)
  from assms obtain e' where
    b: "w_urlopen w (t @ [Gethostbyname (s_domain self)]) (s_url self) = Inl e'"
    unfolding all_calls_fail_def by (metis isl_def)
  from a b show ?thesis
    by (simp add: get_server_info_def Let_def get_location_info_def dict_get_def)
qed

lemma unreachable_domain:
  assumes "all_calls_fail w"
  shows "fst (get_domain_info w self t) =
     PDict
       [(''registrar'', PStr ''Unknown''),
        (''creation_date'', PStr ''Unknown''),
        (''expiry_date'', PStr ''Unknown''),
        (''name_servers'', PStr ''Unknown''),
        (''dnssec'', PStr ''Unknown'')]"
proof -
  from assms obtain e where "w_nslookup w t (s_domain self) = Inl e"
    unfolding all_calls_fail_def by (metis isl_def)
  then show ?thesis by (simp add: get_domain_info_def get_name_servers_def)
qed

lemma unreachable_security:
  assumes "all_calls_fail w"
  shows "fst (get_security_info w self t) =
     PDict
       [(''ssl_certificate'',
           PDict [(''enabled'', PBool False),
                  (''message'', PStr
                     (if startswith (s_url self) ''https''
                      then ''SSL error: '' @ str_exn (projl (w_getpeercert w t (s_domain self)))
                      else ''SSL not enabled''))]),
        (''security_headers'', PDict []),
        (''hsts_enabled'', PBool False),
        (''content_security_policy'', PBool False)]"
proof -
  from assms obtain e where a: "w_getpeercert w t (s_domain self) = Inl e"
    unfolding all_calls_fail_def by (metis isl_def)
  from assms obtain e' where
    b: "w_urlopen w (t @ tls_events self) (s_url self) = Inl e'"
    unfolding all_calls_fail_def by (metis isl_def)
  have c: "get_security_headers w self (t @ tls_events self)
             = ([], (t @ tls_events self) @ [Urlopen (s_url self)])"
    using b by (simp add: get_security_headers_def)
  have d: "get_ssl_info w self t =
     (PDict [(''enabled'', PBool False),
             (''message'', PStr
                (if startswith (s_url self) ''https''
                 then ''SSL error: '' @ str_exn (projl (w_getpeercert w t (s_domain self)))
                 else ''SSL not enabled''))],
      t @ tls_events self)"
    using a by (simp add: get_ssl_info_def ssl_error_def tls_events_def)
  show ?thesis
    by (simp add: get_security_info_def d c str_dict_def dict_in_def)
qed

lemma unreachable_performance:
  assumes "all_calls_fail w"
  shows "fst (get_performance_info w self t) =
     Inr (PDict
       [(''response_time'', PStr ''Unknown''),
        (''compression'', PStr ''Unknown''),
        (''caching'', PStr ''Unknown''),
        (''page_size'', PStr ''Unknown'')])"
proof -
  from assms obtain e1 where a: "w_urlopen w t (s_url self) = Inl e1"
    unfolding all_calls_fail_def by (metis isl_def)
  from assms obtain e2 where
    b: "w_urlopen w (t @ [Urlopen (s_url self)]) (s_url self) = Inl e2"
    unfolding all_calls_fail_def by (metis isl_def)
  from assms obtain e3 where
    c: "w_urlopen w (t @ [Urlopen (s_url self), Urlopen (s_url self)]) (s_url self) = Inl e3"
    unfolding all_calls_fail_def by (metis isl_def)
  have cc: "check_compression w self (t @ [Urlopen (s_url self)])
              = (''Unknown'', (t @ [Urlopen (s_url self)]) @ [Urlopen (s_url self)])"
    using b by (simp add: check_compression_def)
  have ca: "check_caching w self (t @ [Urlopen (s_url self), Urlopen (s_url self)])
              = (''Unknown'',
                 t @ [Urlopen (s_url self), Urlopen (s_url self), Urlopen (s_url self)])"
    using c by (simp add: check_caching_def)
  show ?thesis
    using a by (simp add: get_performance_info_def Let_def cc ca page_size_Unknown)
qed

lemma no_signal: 
  "detect_web_server [] = ''Unknown''"
  "detect_programming_language [] [] = ''Unknown''"
  "detect_cms [] = ''Custom/Unknown''"
  "detect_js_frameworks [] = ''Unknown''"
  "detect_analytics [] = ''None detected''"
  by code_simp+

lemma unreachable_technology:
  assumes "all_calls_fail w"
  shows "fst (get_technology_info w self t) =
     PDict
       [(''web_server'', PStr ''Unknown''),
        (''programming_language'', PStr ''Unknown''),
        (''cms'', PStr ''Custom/Unknown''),
        (''javascript_frameworks'', PStr ''Unknown''),
        (''analytics'', PStr ''None detected'')]"
proof -
  from assms obtain e where "w_urlopen w t (s_url self) = Inl e"
    unfolding all_calls_fail_def by (metis isl_def)
  then show ?thesis by (simp add: get_technology_info_def no_signal)
qed
text \<open>
  Claim C3. Let the URL be well-formed: \<^verbatim>\<open>urlparse\<close> returns and the port of the result can be
  read. If every network call raises, \<^verbatim>\<open>main\<close> prints the report shown, with \<^verbatim>\<open>success\<close> true
  and each field of each category at its default (\<^verbatim>\<open>Unknown\<close>, \<^verbatim>\<open>Custom/Unknown\<close>,
  \<^verbatim>\<open>None detected\<close>, no security header, TLS not enabled with its cause; URL, domain, protocol
  and port come from the URL itself), and exits with status 0. And in any world in which the
  scan succeeds, making one single call fail leaves the scan successful and changes the
  section of at most one category: all other categories have the outcome they had.
\<close>

theorem probe_failures_are_contained:
  assumes "w_urlparse w u = Inr p" and "p_port p = Inr port"
  shows
   "(all_calls_fail w \<longrightarrow>
       main w [prog, u] =
         (Json (PDict
            [(''success'', PBool True),
             (''data'', PDict
                [(''basic_info'', PDict
                    [(''url'', PStr u),
                     (''domain'', PStr (p_netloc p)),
                     (''status_code'', PStr ''Unknown''),
                     (''protocol'', PStr (p_scheme p)),
                     (''port'', PInt (case port of
                          None \<Rightarrow> if p_scheme p = ''https'' then 443 else 80
                        | Some n \<Rightarrow>
                            if n = 0 then if p_scheme p = ''https'' then 443 else 80
                            else n))]),
                 (''server_info'', PDict
                    [(''ip_address'', PStr ''Unknown''),
                     (''server'', PStr ''Unknown''),
                     (''location'', PStr ''Unknown''),
                     (''city'', PStr ''Unknown''),
                     (''isp'', PStr ''Unknown'')]),
                 (''domain_info'', PDict
                    [(''registrar'', PStr ''Unknown''),
                     (''creation_date'', PStr ''Unknown''),
                     (''expiry_date'', PStr ''Unknown''),
                     (''name_servers'', PStr ''Unknown''),
                     (''dnssec'', PStr ''Unknown'')]),
                 (''security_info'', PDict
                    [(''ssl_certificate'', PDict
                        [(''enabled'', PBool False),
                         (''message'', PStr
                            (if startswith u ''https''
                             then ''SSL error: '' @ str_exn (projl (w_getpeercert w
                                    [Urlopen u, Gethostbyname (p_netloc p), Urlopen u,
                                     Nslookup (p_netloc p)] (p_netloc p)))
                             else ''SSL not enabled''))]),
                     (''security_headers'', PDict []),
                     (''hsts_enabled'', PBool False),
                     (''content_security_policy'', PBool False)]),
                 (''performance_info'', PDict
                    [(''response_time'', PStr ''Unknown''),
                     (''compression'', PStr ''Unknown''),
                     (''caching'', PStr ''Unknown''),
                     (''page_size'', PStr ''Unknown'')]),
                 (''technology_info'', PDict
                    [(''web_server'', PStr ''Unknown''),
                     (''programming_language'', PStr ''Unknown''),
                     (''cms'', PStr ''Custom/Unknown''),
                     (''javascript_frameworks'', PStr ''Unknown''),
                     (''analytics'', PStr ''None detected'')])]),
             (''scan_time'', PStr (w_now w))]),
          0,
          scan_events \<lparr>s_url = u, s_domain = p_netloc p\<rparr>))
    \<and> (\<forall>at ev e.
          py_item (fst (scan w \<lparr>s_url = u, s_domain = p_netloc p\<rparr> [])) ''success'' = PBool True
          \<longrightarrow>
          py_item (fst (scan (fail_call w at ev e) \<lparr>s_url = u, s_domain = p_netloc p\<rparr> []))
            ''success'' = PBool True
          \<and> (\<exists>c \<in> set categories. \<forall>c' \<in> set categories. c' \<noteq> c \<longrightarrow>
                py_path (fst (scan (fail_call w at ev e)
                    \<lparr>s_url = u, s_domain = p_netloc p\<rparr> [])) [''data'', c']
                  = py_path (fst (scan w \<lparr>s_url = u, s_domain = p_netloc p\<rparr> []))
                      [''data'', c']))"
proof (intro conjI impI allI)
  let ?self = "\<lparr>s_url = u, s_domain = p_netloc p\<rparr>"
  assume af: "all_calls_fail w"
  have p': "w_urlparse w (s_url ?self) = Inr p" using assms(1) by simp
  have ws: "WebsiteScanner w u = Inr ?self"
    using assms(1) by (simp add: WebsiteScanner_def)
  have bs: "before_security ?self
      = [Urlopen u, Gethostbyname (p_netloc p), Urlopen u, Nslookup (p_netloc p)]"
    by (simp add: before_security_def before_domain_def before_server_def)
  have sc: "scan w ?self [] =
     (PDict
        [(''success'', PBool True),
         (''data'', PDict
            [(''basic_info'', projr (fst (get_basic_info w ?self []))),
             (''server_info'', fst (get_server_info w ?self ([] @ before_server ?self))),
             (''domain_info'', fst (get_domain_info w ?self ([] @ before_domain ?self))),
             (''security_info'', fst (get_security_info w ?self ([] @ before_security ?self))),
             (''performance_info'',
                projr (fst (get_performance_info w ?self ([] @ before_performance ?self)))),
             (''technology_info'',
                fst (get_technology_info w ?self ([] @ before_technology ?self)))]),
         (''scan_time'', PStr (w_now w))],
      [] @ scan_events ?self)"
    by (simp only: scan_unfold [of w ?self "[]"] unreachable_basic [OF af p' assms(2)]
        unreachable_performance [OF af] sum.case sum.sel)
  show "main w [prog, u] = (Json (PDict
            [(''success'', PBool True),
             (''data'', PDict
                [(''basic_info'', PDict
                    [(''url'', PStr u),
                     (''domain'', PStr (p_netloc p)),
                     (''status_code'', PStr ''Unknown''),
                     (''protocol'', PStr (p_scheme p)),
                     (''port'', PInt (case port of
                          None \<Rightarrow> if p_scheme p = ''https'' then 443 else 80
                        | Some n \<Rightarrow>
                            if n = 0 then if p_scheme p = ''https'' then 443 else 80
                            else n))]),
                 (''server_info'', PDict
                    [(''ip_address'', PStr ''Unknown''),
                     (''server'', PStr ''Unknown''),
                     (''location'', PStr ''Unknown''),
                     (''city'', PStr ''Unknown''),
                     (''isp'', PStr ''Unknown'')]),
                 (''domain_info'', PDict
                    [(''registrar'', PStr ''Unknown''),
                     (''creation_date'', PStr ''Unknown''),
                     (''expiry_date'', PStr ''Unknown''),
                     (''name_servers'', PStr ''Unknown''),
                     (''dnssec'', PStr ''Unknown'')]),
                 (''security_info'', PDict
                    [(''ssl_certificate'', PDict
                        [(''enabled'', PBool False),
                         (''message'', PStr
                            (if startswith u ''https''
                             then ''SSL error: '' @ str_exn (projl (w_getpeercert w
                                    [Urlopen u, Gethostbyname (p_netloc p), Urlopen u,
                                     Nslookup (p_netloc p)] (p_netloc p)))
                             else ''SSL not enabled''))]),
                     (''security_headers'', PDict []),
                     (''hsts_enabled'', PBool False),
                     (''content_security_policy'', PBool False)]),
                 (''performance_info'', PDict
                    [(''response_time'', PStr ''Unknown''),
                     (''compression'', PStr ''Unknown''),
                     (''caching'', PStr ''Unknown''),
                     (''page_size'', PStr ''Unknown'')]),
                 (''technology_info'', PDict
                    [(''web_server'', PStr ''Unknown''),
                     (''programming_language'', PStr ''Unknown''),
                     (''cms'', PStr ''Custom/Unknown''),
                     (''javascript_frameworks'', PStr ''Unknown''),
                     (''analytics'', PStr ''None detected'')])]),
             (''scan_time'', PStr (w_now w))]),
          0,
          scan_events ?self)"
    unfolding main_def
    by (simp add: ws sc unreachable_basic [OF af p' assms(2)] unreachable_server [OF af]
        unreachable_domain [OF af] unreachable_security [OF af]
        unreachable_performance [OF af] unreachable_technology [OF af] bs)
next
  fix at ev e
  assume "py_item (fst (scan w \<lparr>s_url = u, s_domain = p_netloc p\<rparr> [])) ''success'' = PBool True"
  then show "py_item (fst (scan (fail_call w at ev e) \<lparr>s_url = u, s_domain = p_netloc p\<rparr> []))
            ''success'' = PBool True"
    using one_failure_changes_one_category by blast
next
  fix at ev e
  assume "py_item (fst (scan w \<lparr>s_url = u, s_domain = p_netloc p\<rparr> [])) ''success'' = PBool True"
  then show "\<exists>c \<in> set categories. \<forall>c' \<in> set categories. c' \<noteq> c \<longrightarrow>
                py_path (fst (scan (fail_call w at ev e)
                    \<lparr>s_url = u, s_domain = p_netloc p\<rparr> [])) [''data'', c']
                  = py_path (fst (scan w \<lparr>s_url = u, s_domain = p_netloc p\<rparr> []))
                      [''data'', c']"
    using one_failure_changes_one_category by blast
qed

theorem probe_failures_are_contained_witness:
  "w_urlparse world_down ''https://example.com''
     = Inr \<lparr>p_scheme = ''https'', p_netloc = ''example.com'', p_port = Inr None\<rparr>
   \<and> all_calls_fail world_down
   \<and> fst (snd (main world_down [''scanner.py'', ''https://example.com''])) = 0
   \<and> (\<exists>r. fst (main world_down [''scanner.py'', ''https://example.com'']) = Json r
          \<and> py_item r ''success'' = PBool True
          \<and> py_path r [''data'', ''server_info'', ''ip_address''] = PStr ''Unknown'')
   \<and> py_item (fst (scan (fail_call world_down [] (Urlopen ''https://example.com'')
                        (OSError ''timed out''))
                     \<lparr>s_url = ''https://example.com'', s_domain = ''example.com''\<rparr> []))
         ''success'' = PBool True"
proof -
  let ?p = "\<lparr>p_scheme = ''https'', p_netloc = ''example.com'', p_port = Inr None\<rparr>"
  have p: "w_urlparse world_down ''https://example.com'' = Inr ?p"
    by (simp add: world_down_def example_urlparse_def)
  have q: "p_port ?p = Inr None" by simp
  have af: "all_calls_fail world_down"
    by (simp add: all_calls_fail_def world_down_def)
  note T = probe_failures_are_contained [OF p q, of "''scanner.py''"]
  note m = T [THEN conjunct1, THEN mp, OF af]
  have a: "fst (snd (main world_down [''scanner.py'', ''https://example.com''])) = 0"
    unfolding m by simp
  have b: "\<exists>r. fst (main world_down [''scanner.py'', ''https://example.com'']) = Json r
          \<and> py_item r ''success'' = PBool True
          \<and> py_path r [''data'', ''server_info'', ''ip_address''] = PStr ''Unknown''"
    unfolding m by (simp add: dict_get_def)
  have s: "py_item (fst (scan world_down
             \<lparr>s_url = ''https://example.com'', s_domain = ''example.com''\<rparr> [])) ''success''
           = PBool True"
    by code_simp
  have n: "p_netloc ?p = ''example.com''" by simp
  from T [THEN conjunct2, unfolded n] s have f: "py_item (fst (scan (fail_call world_down [] (Urlopen ''https://example.com'')
                        (OSError ''timed out''))
                     \<lparr>s_url = ''https://example.com'', s_domain = ''example.com''\<rparr> []))
         ''success'' = PBool True"
    by blast
  from p af a b f show ?thesis by blast
qed

end
